theory Spec2Isabelle
  imports Main "HOL-Library.Sublist"
begin

section \<open>Minecraft Server Manager: the process supervisor of server.js\<close>

text \<open>
  The development follows \<^verbatim>\<open>server.js\<close> of the Minecraft Server Manager: the
  registry of instances kept in \<^verbatim>\<open>data/servers.json\<close>, the in-memory process map, and
  the route handlers that create, delete, start and stop instances, send console
  commands and read the log.

  Conventions of the model:
  \<^item> strings are lists of 8-bit characters; the text the handlers look at (names, jar
    names, commands, logs) is taken as ASCII, so a character is a byte and
    \<^verbatim>\<open>toString('utf8')\<close> is the identity;
  \<^item> paths are POSIX, absolute and normalised, kept as their list of segments;
  \<^item> numbers of a request body and of a record are integers;
  \<^item> the calls of \<^verbatim>\<open>fs\<close> succeed on the modelled file system (no permission or
    disk failures);
  \<^item> what the model does not compute is part of the state: whether \<^verbatim>\<open>java\<close> is found on
    the PATH, and what \<^verbatim>\<open>JSON.parse\<close> makes of a text;
  \<^item> an exception that nothing catches ends the manager: the state is marked as crashed,
    and a crashed manager handles no further event.
\<close>

subsection \<open>Characters, strings, numbers\<close>

definition LF :: char where
  "LF = CHR 0x0A"

definition CR :: char where
  "CR = CHR 0x0D"

text \<open>The ASCII white space that \<^verbatim>\<open>String.prototype.trim\<close> removes.\<close>

definition is_space :: "char \<Rightarrow> bool" where
  "is_space c = (c = CHR 0x09 \<or> c = CHR 0x0A \<or> c = CHR 0x0B \<or> c = CHR 0x0C \<or> c = CHR 0x0D \<or> c = CHR 0x20)"

definition trim :: "string \<Rightarrow> string" where
  "trim s = rev (dropWhile is_space (rev (dropWhile is_space s)))"

definition toLowerCase :: "string \<Rightarrow> string" where
  "toLowerCase s =
     map (\<lambda>c. if 65 \<le> (of_char c :: nat) \<and> (of_char c :: nat) \<le> 90
              then char_of ((of_char c :: nat) + 32) else c) s"

text \<open>The character class \<^verbatim>\<open>[a-z0-9]\<close>.\<close>

definition is_slug_char :: "char \<Rightarrow> bool" where
  "is_slug_char c =
     ((97 \<le> (of_char c :: nat) \<and> (of_char c :: nat) \<le> 122) \<or>
      (48 \<le> (of_char c :: nat) \<and> (of_char c :: nat) \<le> 57))"

definition digit_char :: "nat \<Rightarrow> char" where
  "digit_char d = (if d < 10 then char_of (48 + d) else char_of (87 + d))"

text \<open>Decimal printing of a number, as a template literal \<^verbatim>\<open>${n}\<close> does for an integer.\<close>

fun show_nat :: "nat \<Rightarrow> string" where
  "show_nat n = (if n < 10 then [digit_char n] else show_nat (n div 10) @ [digit_char (n mod 10)])"

declare show_nat.simps [simp del]

definition show_int :: "int \<Rightarrow> string" where
  "show_int i = (if i < 0 then CHR ''-'' # show_nat (nat (- i)) else show_nat (nat i))"

text \<open>\<^verbatim>\<open>s.split(c)\<close> for a one-character separator: never the empty list.\<close>

fun split_on :: "char \<Rightarrow> string \<Rightarrow> string list" where
  "split_on c [] = [[]]"
| "split_on c (x # xs) =
     (if x = c then [] # split_on c xs
      else (case split_on c xs of [] \<Rightarrow> [[x]] | s # ss \<Rightarrow> (x # s) # ss))"

text \<open>\<^verbatim>\<open>s.split(/\r?\n/)\<close>: a line feed, with the carriage return before it when there is one.\<close>

fun split_lines :: "string \<Rightarrow> string list" where
  "split_lines [] = [[]]"
| "split_lines [c] = (if c = LF then [[], []] else [[c]])"
| "split_lines (c # d # cs) =
     (if c = LF then [] # split_lines (d # cs)
      else if c = CR \<and> d = LF then [] # split_lines cs
      else (case split_lines (d # cs) of [] \<Rightarrow> [[c]] | s # ss \<Rightarrow> (c # s) # ss))"

text \<open>\<^verbatim>\<open>lines.join('\n')\<close>.\<close>

fun join_lines :: "string list \<Rightarrow> string" where
  "join_lines [] = []"
| "join_lines [l] = l"
| "join_lines (l # m # ls) = l @ LF # join_lines (m # ls)"

subsection \<open>Paths\<close>

type_synonym path = "string list"

text \<open>
  \<^verbatim>\<open>path.join(p, s)\<close> for an absolute normalised \<open>p\<close>: the segments of \<open>s\<close> are applied in
  turn, \<^verbatim>\<open>.\<close> and the empty segment are dropped, \<^verbatim>\<open>..\<close> removes the last segment (and
  stays at the root).
\<close>

definition path_step :: "path \<Rightarrow> string \<Rightarrow> path" where
  "path_step p s = (if s = [] \<or> s = ''.'' then p else if s = ''..'' then butlast p else p @ [s])"

definition path_join :: "path \<Rightarrow> string \<Rightarrow> path" where
  "path_join p s = foldl path_step p (split_on CHR ''/'' s)"

text \<open>\<^verbatim>\<open>path.basename(s)\<close>: trailing separators are skipped, then the last segment is taken.\<close>

definition basename :: "string \<Rightarrow> string" where
  "basename s =
     rev (takeWhile (\<lambda>c. c \<noteq> CHR ''/'') (dropWhile (\<lambda>c. c = CHR ''/'') (rev s)))"

text \<open>The path as the string handed to the child process.\<close>

definition path_str :: "path \<Rightarrow> string" where
  "path_str p = (if p = [] then ''/'' else concat (map (\<lambda>s. CHR ''/'' # s) p))"

subsection \<open>Records, files, processes\<close>

record server =
  id_s :: string
  name :: string
  port :: int
  maxMemoryMB :: int
  jar :: string
  dir :: path

text \<open>
  A file holds text, or the registry document: \<open>Registry xs\<close> is the text
  \<^verbatim>\<open>JSON.stringify(xs, null, 2)\<close>, which \<^verbatim>\<open>JSON.parse\<close> reads back as \<open>xs\<close>. The program
  writes a registry document only to \<^verbatim>\<open>servers.json\<close>. What \<^verbatim>\<open>JSON.parse\<close> makes of any
  other text is given by the state.
\<close>

datatype content = Text string | Registry "server list"

text \<open>
  The value of a JSON text, as far as the handlers tell values apart: an array, whose
  elements are taken to be records, or a value that is not an array (an object,
  \<^verbatim>\<open>null\<close>, a number, a string, a boolean), on which \<^verbatim>\<open>find\<close>, \<^verbatim>\<open>map\<close> and \<^verbatim>\<open>push\<close> throw a
  TypeError.
\<close>

datatype jsval = NotArray | Array "server list"

text \<open>A call that throws, or returns a value.\<close>

datatype 'a completion = Throw | Normal 'a

datatype node = Dir | File content

text \<open>
  A child process object as \<^verbatim>\<open>spawn\<close> returns it, with what the listeners of the start
  handler captured: the id (\<open>owner\<close>) and the log stream (\<open>logFile\<close>). \<open>stdin\<close> is the
  list of chunks written so far, the newest last. The pid is undefined (\<open>None\<close>) when no
  process could be spawned.
\<close>

record child =
  pid :: "nat option"
  command :: string
  args :: "string list"
  cwd :: path
  stdin :: "string list"
  owner :: string
  logFile :: path
  exited :: bool

text \<open>
  The state: \<^verbatim>\<open>__dirname\<close>, the file system, \<^verbatim>\<open>procMap\<close> (an id is mapped to a handle, the
  index of the child object in \<open>children\<close>, the child objects ever made), the pid the
  operating system gives to the next child, whether \<^verbatim>\<open>java\<close> is found on the PATH, what
  \<^verbatim>\<open>JSON.parse\<close> returns for a text (\<open>None\<close> when it throws), and whether an uncaught
  exception has ended the manager.
\<close>

record state =
  dirname :: path
  fs :: "path \<rightharpoonup> node"
  procMap :: "string \<rightharpoonup> nat"
  children :: "child list"
  os_pid :: nat
  java_on_path :: bool
  JSON_parse :: "string \<Rightarrow> jsval option"
  crashed :: bool

text \<open>
  A reply of a handler: an error with its HTTP status and message, \<^verbatim>\<open>{ok: true}\<close>,
  \<^verbatim>\<open>{ok: true, pid}\<close>, a record, the list of records with their running flag, or plain text.
  \<open>Uncaught\<close> is the status 500 that Express sends when a handler throws; \<open>NoReply\<close>
  stands for a request that is never answered because the manager ends.
\<close>

datatype reply =
    Err nat string
  | Ok
  | OkPid nat
  | Json server
  | JsonList "(server \<times> bool) list"
  | Plain string
  | Uncaught
  | NoReply

text \<open>The failure kinds of the specification, and the replies of the code they name.\<close>

datatype kind = NotFound | Conflict | InvalidState | InvalidArgument | IOError

definition kind_of :: "reply \<Rightarrow> kind option" where
  "kind_of r =
     (if r = Err 404 ''Not found'' then Some NotFound
      else if r = Err 400 ''JAR not found. Upload it first.'' then Some NotFound
      else if r = Err 400 ''Already running'' then Some Conflict
      else if r = Err 400 ''Stop the server first'' then Some Conflict
      else if r = Err 400 ''JAR missing on disk'' then Some InvalidState
      else if r = Err 400 ''Not running'' then Some InvalidState
      else if r = Err 400 ''name, port, jar are required'' then Some InvalidArgument
      else if r = Err 400 ''command required'' then Some InvalidArgument
      else if r = Err 500 ''Failed to send stop'' then Some IOError
      else if r = Err 500 ''Failed to send command'' then Some IOError
      else if r = Err 500 ''Failed to read logs'' then Some IOError
      else None)"

subsection \<open>The file system calls\<close>

definition existsSync :: "state \<Rightarrow> path \<Rightarrow> bool" where
  "existsSync st p = (fs st p \<noteq> None)"

text \<open>\<^verbatim>\<open>fs.mkdirSync(d, {recursive: true})\<close>: \<open>d\<close> and its missing ancestors become directories.\<close>

definition mkdirSync :: "state \<Rightarrow> path \<Rightarrow> state" where
  "mkdirSync st d = st\<lparr>fs := (\<lambda>p. if prefix p d \<and> fs st p = None then Some Dir else fs st p)\<rparr>"

definition writeFileSync :: "state \<Rightarrow> path \<Rightarrow> content \<Rightarrow> state" where
  "writeFileSync st p c = st\<lparr>fs := (fs st)(p \<mapsto> File c)\<rparr>"

text \<open>\<^verbatim>\<open>fs.rmSync(d, {recursive: true, force: true})\<close>: \<open>d\<close> and all below it are gone.\<close>

definition rmSync :: "state \<Rightarrow> path \<Rightarrow> state" where
  "rmSync st d = st\<lparr>fs := (\<lambda>p. if prefix d p then None else fs st p)\<rparr>"

text \<open>A write to a stream opened with flag \<^verbatim>\<open>a\<close>: the file is created when missing.\<close>

definition appendFile :: "state \<Rightarrow> path \<Rightarrow> string \<Rightarrow> state" where
  "appendFile st p d =
     (case fs st p of
        None \<Rightarrow> st\<lparr>fs := (fs st)(p \<mapsto> File (Text d))\<rparr>
      | Some (File (Text t)) \<Rightarrow> st\<lparr>fs := (fs st)(p \<mapsto> File (Text (t @ d)))\<rparr>
      | Some _ \<Rightarrow> st)"

subsection \<open>Directories and the registry\<close>

definition DATA_DIR :: "state \<Rightarrow> path" where
  "DATA_DIR st = path_join (dirname st) ''data''"

definition JAR_DIR :: "state \<Rightarrow> path" where
  "JAR_DIR st = path_join (DATA_DIR st) ''jars''"

definition SERVERS_DIR :: "state \<Rightarrow> path" where
  "SERVERS_DIR st = path_join (DATA_DIR st) ''servers''"

definition STATE_FILE :: "state \<Rightarrow> path" where
  "STATE_FILE st = path_join (DATA_DIR st) ''servers.json''"

text \<open>
  \<^verbatim>\<open>loadServers\<close>, with the lines it prints on the console. An absent file gives the
  empty array. Otherwise whatever \<^verbatim>\<open>JSON.parse\<close> returns is returned, array or not; when
  the read throws (a directory) or \<^verbatim>\<open>JSON.parse\<close> throws, the catch prints one line and
  returns the empty array.
\<close>

definition load_result :: "state \<Rightarrow> jsval \<times> string list" where
  "load_result st =
     (case fs st (STATE_FILE st) of
        None \<Rightarrow> (Array [], [])
      | Some Dir \<Rightarrow> (Array [], [''Failed to parse servers.json:''])
      | Some (File (Registry xs)) \<Rightarrow> (Array xs, [])
      | Some (File (Text t)) \<Rightarrow>
          (case JSON_parse st t of
             None \<Rightarrow> (Array [], [''Failed to parse servers.json:''])
           | Some v \<Rightarrow> (v, [])))"

definition loadServers :: "state \<Rightarrow> jsval" where
  "loadServers st = fst (load_result st)"

definition saveServers :: "state \<Rightarrow> server list \<Rightarrow> state" where
  "saveServers st servers = writeFileSync st (STATE_FILE st) (Registry servers)"

text \<open>\<^verbatim>\<open>getServer\<close>: \<^verbatim>\<open>servers.find\<close> throws when the value loaded is not an array.\<close>

definition getServer :: "state \<Rightarrow> string \<Rightarrow> server option completion" where
  "getServer st i =
     (case loadServers st of
        NotArray \<Rightarrow> Throw
      | Array servers \<Rightarrow> Normal (find (\<lambda>x. id_s x = i) servers))"

subsection \<open>Identifiers\<close>

text \<open>
  \<^verbatim>\<open>replace(/[^a-z0-9]+/g, '-')\<close>: every maximal run of other characters becomes one
  hyphen. The flag says that the previous character was already part of such a run.
\<close>

fun replace_runs :: "bool \<Rightarrow> string \<Rightarrow> string" where
  "replace_runs b [] = []"
| "replace_runs b (c # cs) =
     (if is_slug_char c then c # replace_runs False cs
      else if b then replace_runs True cs
      else CHR ''-'' # replace_runs True cs)"

text \<open>\<^verbatim>\<open>replace(/^-|-$/g, '')\<close>: a hyphen at the start goes, then one at the end of the rest.\<close>

definition strip_hyphens :: "string \<Rightarrow> string" where
  "strip_hyphens s =
     (let t = (case s of [] \<Rightarrow> [] | c # cs \<Rightarrow> if c = CHR ''-'' then cs else s)
      in if t \<noteq> [] \<and> last t = CHR ''-'' then butlast t else t)"

definition slug :: "string \<Rightarrow> string" where
  "slug nm = strip_hyphens (replace_runs False (toLowerCase nm))"

text \<open>
  \<^verbatim>\<open>Math.random().toString(36)\<close>, given the base-36 digits of the fraction drawn: \<^verbatim>\<open>0\<close> when
  there is none, otherwise \<^verbatim>\<open>0.\<close> and the digits.
\<close>

definition random_base36 :: "nat list \<Rightarrow> string" where
  "random_base36 ds = (if ds = [] then ''0'' else ''0.'' @ map (\<lambda>d. digit_char (d mod 36)) ds)"

text \<open>\<^verbatim>\<open>s.substring(a, b)\<close> for \<open>a \<le> b\<close>.\<close>

definition substring :: "nat \<Rightarrow> nat \<Rightarrow> string \<Rightarrow> string" where
  "substring a b s = take (b - a) (drop a s)"

definition generateId :: "string \<Rightarrow> nat list \<Rightarrow> string" where
  "generateId nm ds = slug nm @ ''-'' @ substring 2 7 (random_base36 ds)"

subsection \<open>The handlers\<close>

text \<open>\<^verbatim>\<open>GET /api/servers\<close>.\<close>

definition api_list :: "state \<Rightarrow> reply" where
  "api_list st =
     (case loadServers st of
        NotArray \<Rightarrow> Uncaught
      | Array servers \<Rightarrow> JsonList (map (\<lambda>s. (s, procMap st (id_s s) \<noteq> None)) servers))"

text \<open>
  \<^verbatim>\<open>POST /api/servers\<close>. A field of the body is absent (\<open>None\<close>) or present; the empty
  string and the number 0 are falsy like an absent field. \<open>ds\<close> are the digits drawn by
  \<^verbatim>\<open>Math.random\<close>. The registry is loaded after the directory and the two files are
  written; \<^verbatim>\<open>servers.push\<close> throws when it is not an array.
\<close>

definition server_properties :: "int \<Rightarrow> string" where
  "server_properties p =
     ''server-port='' @ show_int p @ LF # ''max-players=20'' @ LF # ''enable-jmx-monitoring=false'' @ [LF]"

definition api_create ::
  "state \<Rightarrow> nat list \<Rightarrow> string option \<Rightarrow> int option \<Rightarrow> int option \<Rightarrow> string option \<Rightarrow> reply \<times> state" where
  "api_create st ds nameO portO memO jarO =
     (case (nameO, portO, jarO) of
        (Some nm, Some p, Some j) \<Rightarrow>
          if nm = [] \<or> p = 0 \<or> j = [] then (Err 400 ''name, port, jar are required'', st)
          else
            let jarPath = path_join (JAR_DIR st) (basename j) in
            if \<not> existsSync st jarPath then (Err 400 ''JAR not found. Upload it first.'', st)
            else
              let i = generateId nm ds;
                  d = path_join (SERVERS_DIR st) i;
                  st1 = mkdirSync st d;
                  serverPropPath = path_join d ''server.properties'';
                  st2 = (if \<not> existsSync st1 serverPropPath
                         then writeFileSync st1 serverPropPath (Text (server_properties p))
                         else st1);
                  st3 = writeFileSync st2 (path_join d ''eula.txt'') (Text (''eula=true'' @ [LF]));
                  newS = \<lparr>id_s = i, name = nm, port = p,
                          maxMemoryMB = (case memO of None \<Rightarrow> 1024 | Some m \<Rightarrow> if m = 0 then 1024 else m),
                          jar = basename j, dir = d\<rparr>
              in (case loadServers st3 of
                    NotArray \<Rightarrow> (Uncaught, st3)
                  | Array servers \<Rightarrow> (Json newS, saveServers st3 (servers @ [newS])))
      | _ \<Rightarrow> (Err 400 ''name, port, jar are required'', st))"

text \<open>
  \<^verbatim>\<open>DELETE /api/servers/:id\<close>. The handler is an async function that nothing awaits:
  when \<^verbatim>\<open>servers.find\<close> throws, its rejection is unhandled, which ends the manager
  (Node 15 and later) before any reply.
\<close>

definition api_delete :: "state \<Rightarrow> string \<Rightarrow> reply \<times> state" where
  "api_delete st i =
     (case loadServers st of
        NotArray \<Rightarrow> (NoReply, st\<lparr>crashed := True\<rparr>)
      | Array servers \<Rightarrow>
          (case find (\<lambda>x. id_s x = i) servers of
             None \<Rightarrow> (Err 404 ''Not found'', st)
           | Some s \<Rightarrow>
               if procMap st i \<noteq> None then (Err 400 ''Stop the server first'', st)
               else (Ok, saveServers (rmSync st (dir s)) (filter (\<lambda>x. id_s x \<noteq> i) servers))))"

text \<open>
  \<^verbatim>\<open>spawn('java', args, {cwd: s.dir})\<close> makes a process when \<^verbatim>\<open>java\<close> is found on the PATH
  and the working directory exists. Otherwise it still returns a child object, without
  a pid, and emits \<^verbatim>\<open>error\<close> on it at the next tick.
\<close>

definition spawns :: "state \<Rightarrow> server \<Rightarrow> bool" where
  "spawns st s = (java_on_path st \<and> fs st (dir s) = Some Dir)"

text \<open>
  \<^verbatim>\<open>POST /api/servers/:id/start\<close>. The heap flags are pushed when \<^verbatim>\<open>s.maxMemoryMB\<close> is
  truthy. The handle of the child object is its index. When a process was spawned it
  has the pid of the operating system, and the log stream creates the log file. When
  none was spawned the handler goes on all the same: the id is set in \<^verbatim>\<open>procMap\<close> and the
  reply is \<^verbatim>\<open>{ok: true}\<close>, the undefined pid being left out; no listener is registered
  for \<^verbatim>\<open>error\<close>, so that event then ends the manager.
\<close>

definition launch_args :: "server \<Rightarrow> path \<Rightarrow> string list" where
  "launch_args s jarPath =
     (if maxMemoryMB s \<noteq> 0
      then [''-Xmx'' @ show_int (maxMemoryMB s) @ ''M'',
            ''-Xms'' @ show_int (min 512 (maxMemoryMB s)) @ ''M'']
      else [])
     @ [''-jar'', path_str jarPath, ''nogui'']"

definition api_start :: "state \<Rightarrow> string \<Rightarrow> reply \<times> state" where
  "api_start st i =
     (if procMap st i \<noteq> None then (Err 400 ''Already running'', st)
      else case getServer st i of
        Throw \<Rightarrow> (Uncaught, st)
      | Normal None \<Rightarrow> (Err 404 ''Not found'', st)
      | Normal (Some s) \<Rightarrow>
          let jarPath = path_join (JAR_DIR st) (jar s) in
          if \<not> existsSync st jarPath then (Err 400 ''JAR missing on disk'', st)
          else
            let lf = path_join (dir s) ''console.log'';
                ok = spawns st s;
                c = \<lparr>pid = (if ok then Some (os_pid st) else None), command = ''java'',
                     args = launch_args s jarPath,
                     cwd = dir s, stdin = [], owner = i, logFile = lf, exited = False\<rparr>;
                h = length (children st);
                st1 = st\<lparr>children := children st @ [c],
                        os_pid := (if ok then Suc (os_pid st) else os_pid st)\<rparr>;
                st2 = st1\<lparr>procMap := (procMap st1)(i \<mapsto> h)\<rparr>
            in if ok then (OkPid (os_pid st), appendFile st2 lf [])
               else (Ok, st2\<lparr>crashed := True\<rparr>))"

text \<open>
  \<^verbatim>\<open>child.stdin.write(chunk)\<close>: the chunk is queued on the pipe of the child object. Without
  a child object behind the handle the call throws.
\<close>

definition stdin_write :: "state \<Rightarrow> nat \<Rightarrow> string \<Rightarrow> state option" where
  "stdin_write st h chunk =
     (if h < length (children st)
      then Some (st\<lparr>children := (children st)[h := (children st ! h)\<lparr>stdin := stdin (children st ! h) @ [chunk]\<rparr>]\<rparr>)
      else None)"

text \<open>\<^verbatim>\<open>POST /api/servers/:id/stop\<close>.\<close>

definition api_stop :: "state \<Rightarrow> string \<Rightarrow> reply \<times> state" where
  "api_stop st i =
     (case procMap st i of
        None \<Rightarrow> (Err 400 ''Not running'', st)
      | Some h \<Rightarrow>
          (case stdin_write st h (''stop'' @ [LF]) of
             Some st' \<Rightarrow> (Ok, st')
           | None \<Rightarrow> (Err 500 ''Failed to send stop'', st)))"

text \<open>\<^verbatim>\<open>POST /api/servers/:id/command\<close>; the command of the body is absent or a string.\<close>

definition api_command :: "state \<Rightarrow> string \<Rightarrow> string option \<Rightarrow> reply \<times> state" where
  "api_command st i commandO =
     (case procMap st i of
        None \<Rightarrow> (Err 400 ''Not running'', st)
      | Some h \<Rightarrow>
          (case commandO of
             None \<Rightarrow> (Err 400 ''command required'', st)
           | Some cmd \<Rightarrow>
               if cmd = [] then (Err 400 ''command required'', st)
               else
                 (case stdin_write st h (trim cmd @ [LF]) of
                    Some st' \<Rightarrow> (Ok, st')
                  | None \<Rightarrow> (Err 500 ''Failed to send command'', st))))"

text \<open>
  \<^verbatim>\<open>GET /api/servers/:id/logs\<close>: the last \<open>min(size, 1 MiB)\<close> bytes are read, split into
  lines, and the last 2000 elements joined. \<^verbatim>\<open>getServer\<close> is called outside the
  \<^verbatim>\<open>try\<close>. Reading a directory throws, which the handler catches; a registry document
  is never at the path of a log, whose last segment is \<^verbatim>\<open>console.log\<close>, and that case is
  put with the directory.
\<close>

definition tail_text :: "string \<Rightarrow> string" where
  "tail_text bytes =
     (let size = min (length bytes) (1024 * 1024);
          buffer = take size (drop (length bytes - size) bytes);
          lines = split_lines buffer
      in join_lines (drop (length lines - 2000) lines))"

definition api_logs :: "state \<Rightarrow> string \<Rightarrow> reply" where
  "api_logs st i =
     (case getServer st i of
        Throw \<Rightarrow> Uncaught
      | Normal None \<Rightarrow> Err 404 ''Not found''
      | Normal (Some s) \<Rightarrow>
          (case fs st (path_join (dir s) ''console.log'') of
             None \<Rightarrow> Plain []
           | Some (File (Text bytes)) \<Rightarrow> Plain (tail_text bytes)
           | Some _ \<Rightarrow> Err 500 ''Failed to read logs''))"

subsection \<open>The listeners of a child\<close>

text \<open>The \<^verbatim>\<open>data\<close> listeners of stdout and stderr append the chunk to the log.\<close>

definition on_data :: "state \<Rightarrow> nat \<Rightarrow> string \<Rightarrow> state" where
  "on_data st h d =
     (if h < length (children st) \<and> \<not> exited (children st ! h)
      then appendFile st (logFile (children st ! h)) d
      else st)"

text \<open>
  The \<^verbatim>\<open>close\<close> listener, run once when the child has terminated: the id it captured is
  deleted from \<^verbatim>\<open>procMap\<close> and the trailer ends the log stream. The code is a number, or
  \<^verbatim>\<open>null\<close> after a signal.
\<close>

definition trailer :: "int option \<Rightarrow> string" where
  "trailer code =
     LF # ''[process exited with code '' @ (case code of None \<Rightarrow> ''null'' | Some n \<Rightarrow> show_int n) @ '']'' @ [LF]"

definition on_close :: "state \<Rightarrow> nat \<Rightarrow> int option \<Rightarrow> state" where
  "on_close st h code =
     (if h < length (children st) \<and> \<not> exited (children st ! h)
      then
        let c = children st ! h;
            st1 = st\<lparr>children := (children st)[h := c\<lparr>exited := True\<rparr>]\<rparr>;
            st2 = st1\<lparr>procMap := (procMap st1)(owner c := None)\<rparr>
        in appendFile st2 (logFile c) (trailer code)
      else st)"

subsection \<open>Runs of the manager\<close>

text \<open>
  Start-up: the three folders are ensured, \<^verbatim>\<open>procMap\<close> is a new map and no child exists.
\<close>

definition startup ::
  "path \<Rightarrow> (path \<rightharpoonup> node) \<Rightarrow> nat \<Rightarrow> bool \<Rightarrow> (string \<Rightarrow> jsval option) \<Rightarrow> state" where
  "startup root files p java parse =
     (let st0 = \<lparr>dirname = root, fs = files, procMap = Map.empty, children = [], os_pid = p,
                 java_on_path = java, JSON_parse = parse, crashed = False\<rparr>;
          st1 = (if \<not> existsSync st0 (DATA_DIR st0) then mkdirSync st0 (DATA_DIR st0) else st0);
          st2 = (if \<not> existsSync st1 (JAR_DIR st1) then mkdirSync st1 (JAR_DIR st1) else st1)
      in if \<not> existsSync st2 (SERVERS_DIR st2) then mkdirSync st2 (SERVERS_DIR st2) else st2)"

datatype event =
    Create "nat list" "string option" "int option" "int option" "string option"
  | Delete string
  | Start string
  | Stop string
  | Command string "string option"
  | Logs string
  | Data nat string
  | Close nat "int option"

text \<open>What an event does to a running manager.\<close>

fun handle :: "state \<Rightarrow> event \<Rightarrow> state" where
  "handle st (Create ds nameO portO memO jarO) = snd (api_create st ds nameO portO memO jarO)"
| "handle st (Delete i) = snd (api_delete st i)"
| "handle st (Start i) = snd (api_start st i)"
| "handle st (Stop i) = snd (api_stop st i)"
| "handle st (Command i c) = snd (api_command st i c)"
| "handle st (Logs i) = st"
| "handle st (Data h d) = on_data st h d"
| "handle st (Close h code) = on_close st h code"

text \<open>A manager that has crashed handles nothing.\<close>

definition step :: "state \<Rightarrow> event \<Rightarrow> state" where
  "step st e = (if crashed st then st else handle st e)"

definition run :: "state \<Rightarrow> event list \<Rightarrow> state" where
  "run st evs = foldl step st evs"

fun is_close :: "event \<Rightarrow> bool" where
  "is_close (Close h code) = True"
| "is_close _ = False"

text \<open>The children alive for an id: the child objects made for it whose close has not come.\<close>

definition live_for :: "state \<Rightarrow> string \<Rightarrow> nat list" where
  "live_for st i =
     filter (\<lambda>h. \<not> exited (children st ! h) \<and> owner (children st ! h) = i) [0..<length (children st)]"

text \<open>
  The invariant of the supervisor: \<^verbatim>\<open>procMap\<close> maps an id to a child exactly when that
  child is alive and was spawned for the id.
\<close>

definition supervised :: "state \<Rightarrow> bool" where
  "supervised st =
     (\<forall>i h. procMap st i = Some h \<longleftrightarrow>
        (h < length (children st) \<and> \<not> exited (children st ! h) \<and> owner (children st ! h) = i))"

subsection \<open>An installation used in the examples\<close>

definition ex_root :: path where
  "ex_root = [''srv'', ''mgr'']"

definition ex_server :: server where
  "ex_server = \<lparr>id_s = ''alpha-k3x9q'', name = ''Alpha'', port = 25565, maxMemoryMB = 2048,
     jar = ''paper.jar'', dir = [''srv'', ''mgr'', ''data'', ''servers'', ''alpha-k3x9q'']\<rparr>"

definition ex_server2 :: server where
  "ex_server2 = \<lparr>id_s = ''beta-7h2mz'', name = ''Beta'', port = 25566, maxMemoryMB = 256,
     jar = ''paper.jar'', dir = [''srv'', ''mgr'', ''data'', ''servers'', ''beta-7h2mz'']\<rparr>"

definition ex_files :: "path \<rightharpoonup> node" where
  "ex_files =
     [[''srv'', ''mgr'', ''data''] \<mapsto> Dir,
      [''srv'', ''mgr'', ''data'', ''jars''] \<mapsto> Dir,
      [''srv'', ''mgr'', ''data'', ''servers''] \<mapsto> Dir,
      [''srv'', ''mgr'', ''data'', ''jars'', ''paper.jar''] \<mapsto> File (Text ''PK''),
      [''srv'', ''mgr'', ''data'', ''servers'', ''alpha-k3x9q''] \<mapsto> Dir,
      [''srv'', ''mgr'', ''data'', ''servers'', ''alpha-k3x9q'', ''eula.txt''] \<mapsto> File (Text ''eula=true''),
      [''srv'', ''mgr'', ''data'', ''servers'', ''beta-7h2mz''] \<mapsto> Dir,
      [''srv'', ''mgr'', ''data'', ''servers.json''] \<mapsto> File (Registry [ex_server, ex_server2])]"

text \<open>
  What \<^verbatim>\<open>JSON.parse\<close> makes of the texts of the examples: \<^verbatim>\<open>[]\<close> is the empty array,
  \<^verbatim>\<open>{}\<close> and \<^verbatim>\<open>null\<close> are values that are no arrays, and the other texts used are not
  JSON.
\<close>

definition ex_parse :: "string \<Rightarrow> jsval option" where
  "ex_parse t =
     (if t = ''[]'' then Some (Array [])
      else if t = ''{}'' \<or> t = ''null'' then Some NotArray
      else None)"

definition ex_state :: state where
  "ex_state = \<lparr>dirname = ex_root, fs = ex_files, procMap = Map.empty, children = [], os_pid = 4711,
     java_on_path = True, JSON_parse = ex_parse, crashed = False\<rparr>"

text \<open>The same installation after \<^verbatim>\<open>alpha-k3x9q\<close> has been started.\<close>

definition ex_running :: state where
  "ex_running = snd (api_start ex_state ''alpha-k3x9q'')"

text \<open>The installation with a console log of \<^verbatim>\<open>alpha-k3x9q\<close> that holds the given bytes.\<close>

definition ex_logged :: "string \<Rightarrow> state" where
  "ex_logged bytes =
     ex_state\<lparr>fs := ex_files([''srv'', ''mgr'', ''data'', ''servers'', ''alpha-k3x9q'', ''console.log'']
       \<mapsto> File (Text bytes))\<rparr>"

text \<open>A console log of 3000 lines, each ended by its line feed.\<close>

definition ex_log3000 :: string where
  "ex_log3000 = concat (replicate 3000 (''a'' @ [LF]))"

text \<open>The installation after a create whose jar is \<^verbatim>\<open>..\<close>.\<close>

definition ex_dotdot :: state where
  "ex_dotdot =
     snd (api_create ex_state [7, 2, 3, 10, 35, 4] (Some ''Gamma World'') (Some 25570) None (Some ''..''))"

text \<open>The installation without \<^verbatim>\<open>servers.json\<close>, and with one that does not parse.\<close>

definition ex_missing :: state where
  "ex_missing = ex_state\<lparr>fs := ex_files([''srv'', ''mgr'', ''data'', ''servers.json''] := None)\<rparr>"

definition ex_corrupt :: state where
  "ex_corrupt =
     ex_state\<lparr>fs := ex_files([''srv'', ''mgr'', ''data'', ''servers.json''] \<mapsto> File (Text ''[{ id:''))\<rparr>"

text \<open>The installation on a machine where \<^verbatim>\<open>java\<close> is not on the PATH.\<close>

definition ex_nojava :: state where
  "ex_nojava = ex_state\<lparr>java_on_path := False\<rparr>"





section \<open>Properties\<close>

subsection \<open>The fixed directories\<close>

lemma DATA_DIR_eq: "DATA_DIR st = dirname st @ [''data'']"
  by (simp add: DATA_DIR_def path_join_def path_step_def)

lemma JAR_DIR_eq: "JAR_DIR st = dirname st @ [''data'', ''jars'']"
  by (simp add: JAR_DIR_def DATA_DIR_eq path_join_def path_step_def)

lemma SERVERS_DIR_eq: "SERVERS_DIR st = dirname st @ [''data'', ''servers'']"
  by (simp add: SERVERS_DIR_def DATA_DIR_eq path_join_def path_step_def)

lemma STATE_FILE_eq: "STATE_FILE st = dirname st @ [''data'', ''servers.json'']"
  by (simp add: STATE_FILE_def DATA_DIR_eq path_join_def path_step_def)

lemma loadServers_saveServers: "loadServers (saveServers st xs) = Array xs"
  by (simp add: loadServers_def load_result_def saveServers_def writeFileSync_def STATE_FILE_eq)

subsection \<open>What each handler leaves alone\<close>

lemma appendFile_frame [simp]:
  "procMap (appendFile st p d) = procMap st"
  "children (appendFile st p d) = children st"
  "dirname (appendFile st p d) = dirname st"
  "os_pid (appendFile st p d) = os_pid st"
  "java_on_path (appendFile st p d) = java_on_path st"
  "JSON_parse (appendFile st p d) = JSON_parse st"
  "crashed (appendFile st p d) = crashed st"
  by (simp_all add: appendFile_def split: option.split node.split content.split)

lemma api_create_frame:
  "procMap (snd (api_create st ds nameO portO memO jarO)) = procMap st"
  "children (snd (api_create st ds nameO portO memO jarO)) = children st"
  "dirname (snd (api_create st ds nameO portO memO jarO)) = dirname st"
  "os_pid (snd (api_create st ds nameO portO memO jarO)) = os_pid st"
  "java_on_path (snd (api_create st ds nameO portO memO jarO)) = java_on_path st"
  "JSON_parse (snd (api_create st ds nameO portO memO jarO)) = JSON_parse st"
  "crashed (snd (api_create st ds nameO portO memO jarO)) = crashed st"
  by (simp_all add: api_create_def Let_def saveServers_def writeFileSync_def mkdirSync_def
      split: option.split jsval.split)

lemma api_delete_frame:
  "procMap (snd (api_delete st i)) = procMap st"
  "children (snd (api_delete st i)) = children st"
  "dirname (snd (api_delete st i)) = dirname st"
  by (simp_all add: api_delete_def Let_def saveServers_def writeFileSync_def rmSync_def
      split: option.split jsval.split)

lemma stdin_write_frame:
  "stdin_write st h chunk = Some st' \<Longrightarrow>
     procMap st' = procMap st \<and> fs st' = fs st \<and> dirname st' = dirname st \<and>
     length (children st') = length (children st) \<and>
     (\<forall>k. exited (children st' ! k) = exited (children st ! k) \<and>
          owner (children st' ! k) = owner (children st ! k))"
  by (auto simp: stdin_write_def nth_list_update split: if_splits)

text \<open>A start that passes the three checks, written out.\<close>

lemma api_start_ok:
  assumes "procMap st i = None" "getServer st i = Normal (Some s)"
    "existsSync st (path_join (JAR_DIR st) (jar s))" "spawns st s"
  shows "api_start st i =
    (OkPid (os_pid st),
     appendFile
       (st\<lparr>children := children st @
             [\<lparr>pid = Some (os_pid st), command = ''java'',
               args = launch_args s (path_join (JAR_DIR st) (jar s)),
               cwd = dir s, stdin = [], owner = i,
               logFile = path_join (dir s) ''console.log'', exited = False\<rparr>],
           os_pid := Suc (os_pid st),
           procMap := (procMap st)(i \<mapsto> length (children st))\<rparr>)
       (path_join (dir s) ''console.log'') [])"
  using assms by (simp add: api_start_def Let_def)

lemma api_start_no_process:
  assumes "procMap st i = None" "getServer st i = Normal (Some s)"
    "existsSync st (path_join (JAR_DIR st) (jar s))" "\<not> spawns st s"
  shows "api_start st i =
    (Ok,
     st\<lparr>children := children st @
           [\<lparr>pid = None, command = ''java'',
             args = launch_args s (path_join (JAR_DIR st) (jar s)),
             cwd = dir s, stdin = [], owner = i,
             logFile = path_join (dir s) ''console.log'', exited = False\<rparr>],
         procMap := (procMap st)(i \<mapsto> length (children st)),
         crashed := True\<rparr>)"
  using assms by (simp add: api_start_def Let_def)

lemma api_start_passed:
  assumes "procMap st i = None" "getServer st i = Normal (Some s)"
    "existsSync st (path_join (JAR_DIR st) (jar s))"
  shows "fst (api_start st i) = (if spawns st s then OkPid (os_pid st) else Ok)"
    and "procMap (snd (api_start st i)) = (procMap st)(i \<mapsto> length (children st))"
    and "children (snd (api_start st i)) = children st @
      [\<lparr>pid = (if spawns st s then Some (os_pid st) else None), command = ''java'',
        args = launch_args s (path_join (JAR_DIR st) (jar s)),
        cwd = dir s, stdin = [], owner = i,
        logFile = path_join (dir s) ''console.log'', exited = False\<rparr>]"
  using assms by (simp_all add: api_start_def Let_def)

lemma api_start_refused:
  "\<not> (procMap st i = None \<and>
      (\<exists>s. getServer st i = Normal (Some s) \<and> existsSync st (path_join (JAR_DIR st) (jar s)))) \<Longrightarrow>
   snd (api_start st i) = st"
  by (auto simp: api_start_def Let_def split: option.split completion.split)

subsection \<open>The invariant of the process map\<close>

lemma supervised_unique:
  assumes "supervised st"
    and "h < length (children st)" "\<not> exited (children st ! h)"
    and "k < length (children st)" "\<not> exited (children st ! k)"
    and "owner (children st ! k) = owner (children st ! h)"
  shows "k = h"
proof -
  have "procMap st (owner (children st ! h)) = Some h"
    using assms(1-3) unfolding supervised_def by blast
  moreover have "procMap st (owner (children st ! h)) = Some k"
    using assms(1,4-6) unfolding supervised_def by metis
  ultimately show ?thesis by simp
qed

lemma supervised_handle: "supervised st \<Longrightarrow> procMap st i = Some h \<Longrightarrow> h < length (children st)"
  unfolding supervised_def by blast

lemma supervised_stdin_write:
  "supervised st \<Longrightarrow> stdin_write st h chunk = Some st' \<Longrightarrow> supervised st'"
  using stdin_write_frame [of st h chunk st'] by (simp add: supervised_def)

lemma supervised_create: "supervised st \<Longrightarrow> supervised (snd (api_create st ds nameO portO memO jarO))"
  by (simp add: supervised_def api_create_frame)

lemma supervised_delete: "supervised st \<Longrightarrow> supervised (snd (api_delete st i))"
  by (simp add: supervised_def api_delete_frame)

lemma supervised_stop: "supervised st \<Longrightarrow> supervised (snd (api_stop st i))"
  by (auto simp: api_stop_def split: option.split dest: supervised_stdin_write)

lemma supervised_command: "supervised st \<Longrightarrow> supervised (snd (api_command st i c))"
  by (auto simp: api_command_def split: option.split dest: supervised_stdin_write)

lemma supervised_data: "supervised st \<Longrightarrow> supervised (on_data st h d)"
  by (simp add: supervised_def on_data_def)

lemma supervised_start:
  assumes "supervised st"
  shows "supervised (snd (api_start st i))"
proof (cases "procMap st i = None \<and>
    (\<exists>s. getServer st i = Normal (Some s) \<and> existsSync st (path_join (JAR_DIR st) (jar s)))")
  case False
  then have "snd (api_start st i) = st"
    by (rule api_start_refused)
  with assms show ?thesis by simp
next
  case True
  then obtain s where s: "procMap st i = None" "getServer st i = Normal (Some s)"
    "existsSync st (path_join (JAR_DIR st) (jar s))" by blast
  let ?st' = "snd (api_start st i)"
  let ?n = "length (children st)"
  have pm: "procMap ?st' = (procMap st)(i \<mapsto> ?n)"
    by (rule api_start_passed(2) [OF s])
  have ch: "children ?st' = children st @
      [\<lparr>pid = (if spawns st s then Some (os_pid st) else None), command = ''java'',
        args = launch_args s (path_join (JAR_DIR st) (jar s)),
        cwd = dir s, stdin = [], owner = i, logFile = path_join (dir s) ''console.log'', exited = False\<rparr>]"
    by (rule api_start_passed(3) [OF s])
  have none: "\<not> (h < ?n \<and> \<not> exited (children st ! h) \<and> owner (children st ! h) = i)" for h
    using assms s(1) unfolding supervised_def by (metis option.distinct(1))
  show ?thesis
    unfolding supervised_def
  proof (intro allI)
    fix j h
    show "procMap ?st' j = Some h \<longleftrightarrow>
      (h < length (children ?st') \<and> \<not> exited (children ?st' ! h) \<and> owner (children ?st' ! h) = j)"
    proof (cases "h < ?n")
      case True
      then show ?thesis
        using assms none [of h] unfolding supervised_def pm ch
        by (auto simp: nth_append)
    next
      case False
      then show ?thesis
        using assms unfolding supervised_def pm ch
        by (cases "h = ?n") (auto simp: nth_append)
    qed
  qed
qed

lemma supervised_close:
  assumes "supervised st"
  shows "supervised (on_close st h code)"
proof (cases "h < length (children st) \<and> \<not> exited (children st ! h)")
  case False
  then show ?thesis using assms by (auto simp: on_close_def)
next
  case True
  let ?c = "children st ! h"
  let ?st' = "on_close st h code"
  have pm: "procMap ?st' = (procMap st)(owner ?c := None)"
    using True by (simp add: on_close_def Let_def)
  have ch: "children ?st' = (children st)[h := ?c\<lparr>exited := True\<rparr>]"
    using True by (simp add: on_close_def Let_def)
  have own: "procMap st (owner ?c) = Some h"
    using assms True unfolding supervised_def by blast
  show ?thesis
    unfolding supervised_def
  proof (intro allI)
    fix j k
    show "procMap ?st' j = Some k \<longleftrightarrow>
      (k < length (children ?st') \<and> \<not> exited (children ?st' ! k) \<and> owner (children ?st' ! k) = j)"
    proof (cases "k = h")
      case True
      then show ?thesis
        using assms own \<open>h < length (children st) \<and> \<not> exited (children st ! h)\<close>
        unfolding supervised_def pm ch
        by auto
    next
      case False
      have u: "\<not> (k < length (children st) \<and> \<not> exited (children st ! k) \<and>
          owner (children st ! k) = owner ?c)"
        using supervised_unique [OF assms, of h k] True False by blast
      show ?thesis
        using assms False u unfolding supervised_def pm ch
        by (auto simp: nth_list_update)
    qed
  qed
qed

lemma supervised_handle_event: "supervised st \<Longrightarrow> supervised (handle st e)"
  by (cases e)
    (simp_all add: supervised_create supervised_delete supervised_start supervised_stop
      supervised_command supervised_data supervised_close)

lemma supervised_step: "supervised st \<Longrightarrow> supervised (step st e)"
  by (simp add: step_def supervised_handle_event)

lemma supervised_run: "supervised st \<Longrightarrow> supervised (run st evs)"
  unfolding run_def by (induction evs arbitrary: st) (simp_all add: supervised_step)

lemma startup_frame:
  "procMap (startup root files p java parse) = Map.empty"
  "children (startup root files p java parse) = []"
  by (simp_all add: startup_def Let_def mkdirSync_def)

lemma supervised_startup: "supervised (startup root files p java parse)"
  by (simp add: supervised_def startup_frame)

lemma filter_eq_upt: "h < n \<Longrightarrow> filter (\<lambda>k. k = h) [0..<n] = [h]"
  by (induction n) (auto simp: less_Suc_eq)

lemma live_for_procMap:
  assumes "supervised st"
  shows "live_for st i = (case procMap st i of None \<Rightarrow> [] | Some h \<Rightarrow> [h])"
proof (cases "procMap st i")
  case None
  then have "\<not> (h < length (children st) \<and> \<not> exited (children st ! h) \<and> owner (children st ! h) = i)" for h
    using assms unfolding supervised_def by (metis option.distinct(1))
  then have "live_for st i = []"
    unfolding live_for_def by (auto simp: filter_empty_conv)
  with None show ?thesis by simp
next
  case (Some h)
  have iff: "(\<not> exited (children st ! k) \<and> owner (children st ! k) = i) \<longleftrightarrow> k = h"
    if "k < length (children st)" for k
    using assms Some that unfolding supervised_def by (metis option.inject)
  have h: "h < length (children st)"
    using assms Some by (rule supervised_handle)
  have "live_for st i = filter (\<lambda>k. k = h) [0..<length (children st)]"
    unfolding live_for_def by (rule filter_cong) (auto simp: iff)
  also have "\<dots> = [h]"
    using h by (rule filter_eq_upt)
  finally show ?thesis using Some by simp
qed

text \<open>Only the \<^verbatim>\<open>close\<close> listener takes an id out of the process map.\<close>

lemma procMap_kept_handle:
  assumes "procMap st i \<noteq> None" "\<not> is_close e"
  shows "procMap (handle st e) i \<noteq> None"
proof (cases e)
  case (Start j)
  show ?thesis
  proof (cases "procMap st j = None \<and>
      (\<exists>s. getServer st j = Normal (Some s) \<and> existsSync st (path_join (JAR_DIR st) (jar s)))")
    case True
    then obtain s where s: "procMap st j = None" "getServer st j = Normal (Some s)"
      "existsSync st (path_join (JAR_DIR st) (jar s))" by blast
    show ?thesis using assms(1) by (simp add: Start api_start_passed(2) [OF s])
  next
    case False
    then show ?thesis using assms(1) by (simp add: Start api_start_refused)
  qed
next
  case (Stop j)
  then show ?thesis
    using assms(1) by (auto simp: api_stop_def split: option.split dest: stdin_write_frame)
next
  case (Command j c)
  then show ?thesis
    using assms(1) by (auto simp: api_command_def split: option.split dest: stdin_write_frame)
qed (use assms in \<open>simp_all add: api_create_frame api_delete_frame on_data_def\<close>)

lemma procMap_kept:
  assumes "procMap st i \<noteq> None" "\<not> is_close e"
  shows "procMap (step st e) i \<noteq> None"
  using procMap_kept_handle [OF assms] assms(1) by (cases "crashed st") (simp_all add: step_def)

lemma procMap_kept_run:
  "procMap st i \<noteq> None \<Longrightarrow> \<forall>e \<in> set evs. \<not> is_close e \<Longrightarrow> procMap (run st evs) i \<noteq> None"
  unfolding run_def
proof (induction evs arbitrary: st)
  case Nil
  then show ?case by simp
next
  case (Cons e evs)
  from Cons.prems have "procMap (step st e) i \<noteq> None"
    by (simp add: procMap_kept)
  with Cons.prems have "procMap (foldl step (step st e) evs) i \<noteq> None"
    by (intro Cons.IH) simp_all
  then show ?case by simp
qed

subsection \<open>Facts about the example installation\<close>

lemma ex_state_sel:
  "procMap ex_state = Map.empty" "os_pid ex_state = 4711" "children ex_state = []"
  "dirname ex_state = ex_root" "fs ex_state = ex_files"
  "java_on_path ex_state" "JSON_parse ex_state = ex_parse" "\<not> crashed ex_state"
  by (simp_all add: ex_state_def)

lemma ex_loadServers: "loadServers ex_state = Array [ex_server, ex_server2]"
  by (simp add: loadServers_def load_result_def STATE_FILE_eq ex_state_def ex_root_def ex_files_def)

lemma ex_getServer_alpha: "getServer ex_state ''alpha-k3x9q'' = Normal (Some ex_server)"
  by (simp add: getServer_def ex_loadServers ex_server_def)

lemma ex_getServer_gamma: "getServer ex_state ''gamma-00000'' = Normal None"
  by (simp add: getServer_def ex_loadServers ex_server_def ex_server2_def)

lemma ex_jarPath:
  "path_join (JAR_DIR ex_state) (jar ex_server) = [''srv'', ''mgr'', ''data'', ''jars'', ''paper.jar'']"
  by (simp add: JAR_DIR_eq path_join_def path_step_def ex_state_def ex_root_def ex_server_def)

lemma ex_jar_exists: "existsSync ex_state [''srv'', ''mgr'', ''data'', ''jars'', ''paper.jar'']"
  by (simp add: existsSync_def ex_state_def ex_files_def)

lemma ex_logPath:
  "path_join (dir ex_server) ''console.log'' =
     [''srv'', ''mgr'', ''data'', ''servers'', ''alpha-k3x9q'', ''console.log'']"
  by (simp add: path_join_def path_step_def ex_server_def)

lemma ex_spawns: "spawns ex_state ex_server"
  by (simp add: spawns_def ex_state_def ex_server_def ex_files_def)

lemma supervised_ex_state: "supervised ex_state"
  by (simp add: supervised_def ex_state_def)

lemma supervised_ex_running: "supervised ex_running"
  unfolding ex_running_def using supervised_ex_state by (rule supervised_start)

lemma ex_running_sel:
  "procMap ex_running = [''alpha-k3x9q'' \<mapsto> 0]"
  "children ex_running =
     [\<lparr>pid = Some 4711, command = ''java'',
       args = launch_args ex_server [''srv'', ''mgr'', ''data'', ''jars'', ''paper.jar''],
       cwd = dir ex_server, stdin = [], owner = ''alpha-k3x9q'',
       logFile = [''srv'', ''mgr'', ''data'', ''servers'', ''alpha-k3x9q'', ''console.log''],
       exited = False\<rparr>]"
  "dirname ex_running = ex_root"
proof -
  have e: "existsSync ex_state (path_join (JAR_DIR ex_state) (jar ex_server))"
    by (simp add: ex_jarPath ex_jar_exists)
  note ok = api_start_ok [OF ex_state_sel(1) [THEN fun_cong] ex_getServer_alpha e ex_spawns]
  show "procMap ex_running = [''alpha-k3x9q'' \<mapsto> 0]"
    by (simp add: ex_running_def ok ex_state_sel)
  show "children ex_running =
     [\<lparr>pid = Some 4711, command = ''java'',
       args = launch_args ex_server [''srv'', ''mgr'', ''data'', ''jars'', ''paper.jar''],
       cwd = dir ex_server, stdin = [], owner = ''alpha-k3x9q'',
       logFile = [''srv'', ''mgr'', ''data'', ''servers'', ''alpha-k3x9q'', ''console.log''],
       exited = False\<rparr>]"
    by (simp add: ex_running_def ok ex_state_sel ex_jarPath ex_logPath)
  show "dirname ex_running = ex_root"
    by (simp add: ex_running_def ok ex_state_sel)
qed

lemma ex_running_fs:
  "fs ex_running =
     ex_files([''srv'', ''mgr'', ''data'', ''servers'', ''alpha-k3x9q'', ''console.log'']
       \<mapsto> File (Text []))"
proof -
  have e: "existsSync ex_state (path_join (JAR_DIR ex_state) (jar ex_server))"
    by (simp add: ex_jarPath ex_jar_exists)
  note ok = api_start_ok [OF ex_state_sel(1) [THEN fun_cong] ex_getServer_alpha e ex_spawns]
  show ?thesis
    by (simp add: ex_running_def ok ex_logPath appendFile_def ex_state_sel ex_files_def)
qed

lemma ex_running_log:
  "fs ex_running [''srv'', ''mgr'', ''data'', ''servers'', ''alpha-k3x9q'', ''console.log'']
     = Some (File (Text []))"
  by (simp add: ex_running_fs)

lemma ex_running_loadServers: "loadServers ex_running = Array [ex_server, ex_server2]"
  by (simp add: loadServers_def load_result_def STATE_FILE_eq ex_running_sel ex_running_fs
      ex_root_def ex_files_def)

lemma ex_running_getServer: "getServer ex_running ''alpha-k3x9q'' = Normal (Some ex_server)"
  by (simp add: getServer_def ex_running_loadServers ex_server_def)

lemma digit_char_decimal:
  "digit_char 0 = CHR ''0''" "digit_char 1 = CHR ''1''" "digit_char 2 = CHR ''2''"
  "digit_char 3 = CHR ''3''" "digit_char 4 = CHR ''4''" "digit_char 5 = CHR ''5''"
  "digit_char 6 = CHR ''6''" "digit_char 7 = CHR ''7''" "digit_char 8 = CHR ''8''"
  "digit_char 9 = CHR ''9''" "digit_char (Suc 0) = CHR ''1''"
  by code_simp+

lemma show_2048: "show_int 2048 = ''2048''"
  by (simp add: show_int_def show_nat.simps digit_char_decimal)

lemma show_1024: "show_int 1024 = ''1024''"
  by (simp add: show_int_def show_nat.simps digit_char_decimal)

lemma show_512: "show_int 512 = ''512''"
  by (simp add: show_int_def show_nat.simps digit_char_decimal)


lemma show_0: "show_int 0 = ''0''"
  by (simp add: show_int_def show_nat.simps digit_char_decimal)

lemma ex_logged_getServer: "getServer (ex_logged b) ''alpha-k3x9q'' = Normal (Some ex_server)"
  by (simp add: getServer_def loadServers_def load_result_def STATE_FILE_eq ex_logged_def
      ex_state_def ex_root_def ex_files_def ex_server_def)

lemma ex_logged_log:
  "fs (ex_logged b) (path_join (dir ex_server) ''console.log'') = Some (File (Text b))"
  by (simp add: ex_logPath ex_logged_def)

lemma ex_no_log: "fs ex_state (path_join (dir ex_server) ''console.log'') = None"
  by (simp add: ex_logPath ex_state_def ex_files_def)

lemma api_start_replied:
  assumes "fst (api_start st i) = OkPid q \<or> fst (api_start st i) = Ok"
  shows "procMap (snd (api_start st i)) i \<noteq> None"
  using assms
  by (auto simp: api_start_def Let_def appendFile_frame
      split: option.splits if_splits completion.splits)

subsection \<open>Starting an instance\<close>

text \<open>
  Claim C1, as the code has it. \<^verbatim>\<open>start(id)\<close> checks, in this order: an id in the process
  map is refused with 400 "Already running" (Conflict); an id without a record with 404
  "Not found" (NotFound); a record whose jar is not on disk with 400 "JAR missing on
  disk" (InvalidState). A refused call returns the state as it was: nothing is spawned
  and the process map is unchanged. Otherwise, when the process can be spawned
  (\<^verbatim>\<open>java\<close> is on the PATH and the directory of the instance exists), one child is
  appended to the children, the id is mapped to it, and the reply carries its pid.
\<close>

theorem start_checks_in_order:
  "(procMap st i \<noteq> None \<longrightarrow>
      api_start st i = (Err 400 ''Already running'', st) \<and>
      kind_of (fst (api_start st i)) = Some Conflict) \<and>
   (procMap st i = None \<and> getServer st i = Normal None \<longrightarrow>
      api_start st i = (Err 404 ''Not found'', st) \<and>
      kind_of (fst (api_start st i)) = Some NotFound) \<and>
   (procMap st i = None \<and> getServer st i = Normal (Some s) \<and>
      \<not> existsSync st (path_join (JAR_DIR st) (jar s)) \<longrightarrow>
      api_start st i = (Err 400 ''JAR missing on disk'', st) \<and>
      kind_of (fst (api_start st i)) = Some InvalidState) \<and>
   (procMap st i = None \<and> getServer st i = Normal (Some s) \<and>
      existsSync st (path_join (JAR_DIR st) (jar s)) \<and> spawns st s \<longrightarrow>
      fst (api_start st i) = OkPid (os_pid st) \<and>
      procMap (snd (api_start st i)) = (procMap st)(i \<mapsto> length (children st)) \<and>
      length (children (snd (api_start st i))) = Suc (length (children st)) \<and>
      take (length (children st)) (children (snd (api_start st i))) = children st \<and>
      pid (children (snd (api_start st i)) ! length (children st)) = Some (os_pid st) \<and>
      owner (children (snd (api_start st i)) ! length (children st)) = i \<and>
      \<not> exited (children (snd (api_start st i)) ! length (children st)))"
  by (simp add: api_start_def kind_of_def Let_def split: option.split)

theorem start_checks_in_order_witness:
  "api_start ex_running ''alpha-k3x9q'' = (Err 400 ''Already running'', ex_running) \<and>
   api_start ex_state ''gamma-00000'' = (Err 404 ''Not found'', ex_state) \<and>
   api_start (ex_state\<lparr>fs := ex_files([''srv'', ''mgr'', ''data'', ''jars'', ''paper.jar''] := None)\<rparr>)
       ''alpha-k3x9q''
     = (Err 400 ''JAR missing on disk'',
        ex_state\<lparr>fs := ex_files([''srv'', ''mgr'', ''data'', ''jars'', ''paper.jar''] := None)\<rparr>) \<and>
   fst (api_start ex_state ''alpha-k3x9q'') = OkPid 4711 \<and>
   procMap (snd (api_start ex_state ''alpha-k3x9q'')) ''alpha-k3x9q'' = Some 0 \<and>
   length (children (snd (api_start ex_state ''alpha-k3x9q''))) = 1 \<and>
   pid (children (snd (api_start ex_state ''alpha-k3x9q'')) ! 0) = Some 4711"
proof -
  let ?nojar = "ex_state\<lparr>fs := ex_files([''srv'', ''mgr'', ''data'', ''jars'', ''paper.jar''] := None)\<rparr>"
  have g3: "getServer ?nojar ''alpha-k3x9q'' = Normal (Some ex_server)"
    by (simp add: getServer_def loadServers_def load_result_def STATE_FILE_eq ex_state_def
        ex_root_def ex_files_def ex_server_def)
  have j': "path_join (JAR_DIR ?nojar) (jar ex_server) = [''srv'', ''mgr'', ''data'', ''jars'', ''paper.jar'']"
    by (simp add: JAR_DIR_eq path_join_def path_step_def ex_state_def ex_root_def ex_server_def)
  have e2: "\<not> existsSync ?nojar [''srv'', ''mgr'', ''data'', ''jars'', ''paper.jar'']"
    by (simp add: existsSync_def)
  show ?thesis
    using start_checks_in_order [of ex_running "''alpha-k3x9q''" ex_server]
      start_checks_in_order [of ex_state "''gamma-00000''" ex_server]
      start_checks_in_order [of ?nojar "''alpha-k3x9q''" ex_server]
      start_checks_in_order [of ex_state "''alpha-k3x9q''" ex_server]
      ex_getServer_gamma ex_getServer_alpha g3 ex_jarPath j' ex_jar_exists e2 ex_state_sel
      ex_running_sel(1) ex_spawns
    by simp
qed

text \<open>
  Without \<^verbatim>\<open>java\<close> on the PATH the three checks pass all the same, and the reply is
  \<^verbatim>\<open>{ok: true}\<close> with no pid: no process was spawned.
\<close>

theorem start_without_java:
  "procMap ex_nojava ''alpha-k3x9q'' = None \<and>
   getServer ex_nojava ''alpha-k3x9q'' = Normal (Some ex_server) \<and>
   existsSync ex_nojava (path_join (JAR_DIR ex_nojava) (jar ex_server)) \<and>
   fst (api_start ex_nojava ''alpha-k3x9q'') = Ok \<and>
   pid (children (snd (api_start ex_nojava ''alpha-k3x9q'')) ! 0) = None \<and>
   crashed (snd (api_start ex_nojava ''alpha-k3x9q''))"
proof -
  have p: "procMap ex_nojava ''alpha-k3x9q'' = None"
    by (simp add: ex_nojava_def ex_state_sel)
  have g: "getServer ex_nojava ''alpha-k3x9q'' = Normal (Some ex_server)"
    by (simp add: getServer_def loadServers_def load_result_def STATE_FILE_eq ex_nojava_def
        ex_state_def ex_root_def ex_files_def ex_server_def)
  have e: "existsSync ex_nojava (path_join (JAR_DIR ex_nojava) (jar ex_server))"
    by (simp add: JAR_DIR_eq path_join_def path_step_def existsSync_def ex_nojava_def
        ex_state_def ex_root_def ex_server_def ex_files_def)
  have n: "\<not> spawns ex_nojava ex_server"
    by (simp add: spawns_def ex_nojava_def)
  have c: "children ex_nojava = []"
    by (simp add: ex_nojava_def ex_state_sel)
  show ?thesis
    using p g e by (simp add: api_start_no_process [OF p g e n] c)
qed

subsection \<open>Deleting an instance\<close>

lemma filter_remove1_distinct:
  "distinct (map f xs) \<Longrightarrow> find (\<lambda>x. f x = i) xs = Some s \<Longrightarrow>
     filter (\<lambda>x. f x \<noteq> i) xs = remove1 s xs"
proof (induction xs)
  case Nil
  then show ?case by simp
next
  case (Cons a xs)
  show ?case
  proof (cases "f a = i")
    case True
    with Cons.prems have "s = a" by simp
    moreover have "f a \<notin> f ` set xs" using Cons.prems(1) by simp
    with True have "\<forall>x \<in> set xs. f x \<noteq> i" by blast
    then have "filter (\<lambda>x. f x \<noteq> i) xs = xs" by (simp add: filter_id_conv)
    ultimately show ?thesis using True by simp
  next
    case False
    with Cons.prems have "find (\<lambda>x. f x = i) xs = Some s" by simp
    moreover from this have "f s = i" by (auto simp: find_Some_iff)
    ultimately show ?thesis using False Cons by auto
  qed
qed

text \<open>
  Claim C7. \<^verbatim>\<open>delete(id)\<close> is refused with 404 "Not found" (NotFound) when no record has
  the id, and with 400 "Stop the server first" (Conflict) when the id is in the process
  map; a refused call returns the state as it was, so registry and directory are
  unchanged. Otherwise the directory of the record and everything below it is
  removed, every other path keeps its content, and the registry written back is the
  old one without the records of that id, the others in their order: with ids
  unique, as the registry keeps them, exactly the record found is removed.
\<close>

theorem delete_contract:
  "(getServer st i = Normal None \<longrightarrow>
      api_delete st i = (Err 404 ''Not found'', st) \<and>
      kind_of (fst (api_delete st i)) = Some NotFound) \<and>
   (getServer st i = Normal (Some s) \<and> procMap st i \<noteq> None \<longrightarrow>
      api_delete st i = (Err 400 ''Stop the server first'', st) \<and>
      kind_of (fst (api_delete st i)) = Some Conflict) \<and>
   (getServer st i = Normal (Some s) \<and> procMap st i = None \<longrightarrow>
      fst (api_delete st i) = Ok \<and>
      (\<forall>p. p \<noteq> STATE_FILE st \<longrightarrow>
         fs (snd (api_delete st i)) p = (if prefix (dir s) p then None else fs st p)) \<and>
      (\<exists>xs. loadServers st = Array xs \<and>
         loadServers (snd (api_delete st i)) = Array (filter (\<lambda>x. id_s x \<noteq> i) xs) \<and>
         (distinct (map id_s xs) \<longrightarrow>
            loadServers (snd (api_delete st i)) = Array (remove1 s xs))) \<and>
      procMap (snd (api_delete st i)) = procMap st \<and>
      children (snd (api_delete st i)) = children st)"
proof (intro conjI impI)
  assume "getServer st i = Normal None"
  then show "api_delete st i = (Err 404 ''Not found'', st)"
    by (simp add: api_delete_def getServer_def split: jsval.splits)
  then show "kind_of (fst (api_delete st i)) = Some NotFound"
    by (simp add: kind_of_def)
next
  assume "getServer st i = Normal (Some s) \<and> procMap st i \<noteq> None"
  then show "api_delete st i = (Err 400 ''Stop the server first'', st)"
    by (auto simp: api_delete_def getServer_def split: jsval.splits)
  then show "kind_of (fst (api_delete st i)) = Some Conflict"
    by (simp add: kind_of_def)
next
  assume a: "getServer st i = Normal (Some s) \<and> procMap st i = None"
  then obtain xs where xs: "loadServers st = Array xs" and f: "find (\<lambda>x. id_s x = i) xs = Some s"
    by (auto simp: getServer_def split: jsval.splits)
  from a xs f have d: "api_delete st i =
      (Ok, saveServers (rmSync st (dir s)) (filter (\<lambda>x. id_s x \<noteq> i) xs))"
    by (simp add: api_delete_def)
  show "fst (api_delete st i) = Ok"
    by (simp add: d)
  show "\<forall>p. p \<noteq> STATE_FILE st \<longrightarrow>
      fs (snd (api_delete st i)) p = (if prefix (dir s) p then None else fs st p)"
    by (simp add: d saveServers_def writeFileSync_def rmSync_def STATE_FILE_eq)
  have l: "loadServers (snd (api_delete st i)) = Array (filter (\<lambda>x. id_s x \<noteq> i) xs)"
    by (simp add: d loadServers_saveServers)
  show "\<exists>xs. loadServers st = Array xs \<and>
         loadServers (snd (api_delete st i)) = Array (filter (\<lambda>x. id_s x \<noteq> i) xs) \<and>
         (distinct (map id_s xs) \<longrightarrow>
            loadServers (snd (api_delete st i)) = Array (remove1 s xs))"
    using xs l f by (auto simp: filter_remove1_distinct)
  show "procMap (snd (api_delete st i)) = procMap st"
    by (simp add: d saveServers_def writeFileSync_def rmSync_def)
  show "children (snd (api_delete st i)) = children st"
    by (simp add: d saveServers_def writeFileSync_def rmSync_def)
qed

theorem delete_contract_witness:
  "api_delete ex_state ''gamma-00000'' = (Err 404 ''Not found'', ex_state) \<and>
   api_delete ex_running ''alpha-k3x9q'' = (Err 400 ''Stop the server first'', ex_running) \<and>
   fst (api_delete ex_state ''alpha-k3x9q'') = Ok \<and>
   loadServers (snd (api_delete ex_state ''alpha-k3x9q'')) = Array [ex_server2] \<and>
   fs (snd (api_delete ex_state ''alpha-k3x9q''))
      [''srv'', ''mgr'', ''data'', ''servers'', ''alpha-k3x9q''] = None \<and>
   fs (snd (api_delete ex_state ''alpha-k3x9q''))
      [''srv'', ''mgr'', ''data'', ''servers'', ''alpha-k3x9q'', ''eula.txt''] = None \<and>
   fs (snd (api_delete ex_state ''alpha-k3x9q''))
      [''srv'', ''mgr'', ''data'', ''servers'', ''beta-7h2mz''] = Some Dir \<and>
   fs (snd (api_delete ex_state ''alpha-k3x9q''))
      [''srv'', ''mgr'', ''data'', ''jars'', ''paper.jar''] = Some (File (Text ''PK''))"
proof -
  have sf: "STATE_FILE ex_state = [''srv'', ''mgr'', ''data'', ''servers.json'']"
    by (simp add: STATE_FILE_eq ex_state_sel ex_root_def)
  have dr: "dir ex_server = [''srv'', ''mgr'', ''data'', ''servers'', ''alpha-k3x9q'']"
    by (simp add: ex_server_def)
  have pre: "getServer ex_state ''alpha-k3x9q'' = Normal (Some ex_server) \<and>
      procMap ex_state ''alpha-k3x9q'' = None"
    by (simp add: ex_getServer_alpha ex_state_sel)
  note dc = delete_contract [of ex_state "''alpha-k3x9q''" ex_server,
      THEN conjunct2, THEN conjunct2, THEN mp, OF pre]
  have ok: "fst (api_delete ex_state ''alpha-k3x9q'') = Ok"
    using dc by blast
  from dc obtain xs where xs: "loadServers ex_state = Array xs"
    and rm: "distinct (map id_s xs) \<longrightarrow>
      loadServers (snd (api_delete ex_state ''alpha-k3x9q'')) = Array (remove1 ex_server xs)"
    by blast
  from xs have x: "xs = [ex_server, ex_server2]"
    by (simp add: ex_loadServers)
  have "distinct (map id_s xs)"
    by (simp add: x ex_server_def ex_server2_def)
  with rm have l: "loadServers (snd (api_delete ex_state ''alpha-k3x9q'')) = Array [ex_server2]"
    by (simp add: x)
  have f: "fs (snd (api_delete ex_state ''alpha-k3x9q'')) p
        = (if prefix (dir ex_server) p then None else fs ex_state p)"
    if "p \<noteq> STATE_FILE ex_state" for p
    using dc that by blast
  show ?thesis
    using delete_contract [of ex_state "''gamma-00000''" ex_server]
      delete_contract [of ex_running "''alpha-k3x9q''" ex_server]
      ex_getServer_gamma ex_running_getServer ex_running_sel(1) ok l
    by (simp add: f sf dr ex_state_sel ex_files_def)
qed

subsection \<open>One live process for an instance\<close>

text \<open>
  Claim C2. In every state that a sequence of create, delete, start, stop, command,
  log, output and close events reaches from start-up, the process map relates an id
  to a child exactly when that child is alive and was spawned for the id; so at most
  one child is alive for an id, the one the map holds. Of two starts of an instance
  that can be started (not live, its record and jar present), with any events but a
  close between them, the first passes the checks and replies \<^verbatim>\<open>{ok: true}\<close>, with the
  pid when the process could be spawned, and the second is refused with 400
  "Already running" (Conflict), changing nothing. Whatever the state, a start that
  replies \<^verbatim>\<open>{ok: true}\<close> makes the next one fail in this way, so the two never both
  succeed.
\<close>

theorem one_live_process_per_instance:
  "(supervised (run (startup root files p java parse) evs) \<and>
    length (live_for (run (startup root files p java parse) evs) i) \<le> 1 \<and>
    live_for (run (startup root files p java parse) evs) i =
      (case procMap (run (startup root files p java parse) evs) i of None \<Rightarrow> [] | Some h \<Rightarrow> [h])) \<and>
   ((\<forall>e \<in> set evs'. \<not> is_close e) \<and> procMap st i = None \<and> getServer st i = Normal (Some s) \<and>
      existsSync st (path_join (JAR_DIR st) (jar s)) \<longrightarrow>
      fst (api_start st i) = (if spawns st s then OkPid (os_pid st) else Ok) \<and>
      api_start (run (snd (api_start st i)) evs') i =
        (Err 400 ''Already running'', run (snd (api_start st i)) evs') \<and>
      kind_of (fst (api_start (run (snd (api_start st i)) evs') i)) = Some Conflict) \<and>
   ((\<forall>e \<in> set evs'. \<not> is_close e) \<and>
      (fst (api_start st i) = OkPid q \<or> fst (api_start st i) = Ok) \<longrightarrow>
      api_start (run (snd (api_start st i)) evs') i =
        (Err 400 ''Already running'', run (snd (api_start st i)) evs')) \<and>
   ((\<forall>e \<in> set evs'. \<not> is_close e) \<longrightarrow>
      \<not> (\<exists>q q'. (fst (api_start st i) = OkPid q \<or> fst (api_start st i) = Ok) \<and>
                (fst (api_start (run (snd (api_start st i)) evs') i) = OkPid q' \<or>
                 fst (api_start (run (snd (api_start st i)) evs') i) = Ok)))"
proof (intro conjI impI)
  let ?st = "run (startup root files p java parse) evs"
  show sup: "supervised ?st"
    by (intro supervised_run supervised_startup)
  show lf: "live_for ?st i = (case procMap ?st i of None \<Rightarrow> [] | Some h \<Rightarrow> [h])"
    using sup by (rule live_for_procMap)
  show "length (live_for ?st i) \<le> 1"
    unfolding lf by (simp split: option.split)
next
  assume a: "(\<forall>e \<in> set evs'. \<not> is_close e) \<and> procMap st i = None \<and> getServer st i = Normal (Some s) \<and>
      existsSync st (path_join (JAR_DIR st) (jar s))"
  then have ok: "procMap (snd (api_start st i)) i \<noteq> None"
    "fst (api_start st i) = (if spawns st s then OkPid (os_pid st) else Ok)"
    by (simp_all add: api_start_passed)
  show "fst (api_start st i) = (if spawns st s then OkPid (os_pid st) else Ok)" by (rule ok)
  from ok(1) a have "procMap (run (snd (api_start st i)) evs') i \<noteq> None"
    by (intro procMap_kept_run) simp_all
  then show r: "api_start (run (snd (api_start st i)) evs') i =
        (Err 400 ''Already running'', run (snd (api_start st i)) evs')"
    by (simp add: api_start_def)
  show "kind_of (fst (api_start (run (snd (api_start st i)) evs') i)) = Some Conflict"
    unfolding r by (simp add: kind_of_def)
next
  assume a: "(\<forall>e \<in> set evs'. \<not> is_close e) \<and>
      (fst (api_start st i) = OkPid q \<or> fst (api_start st i) = Ok)"
  then have "procMap (snd (api_start st i)) i \<noteq> None"
    by (rule_tac api_start_replied) auto
  with a have "procMap (run (snd (api_start st i)) evs') i \<noteq> None"
    by (intro procMap_kept_run) simp_all
  then show "api_start (run (snd (api_start st i)) evs') i =
        (Err 400 ''Already running'', run (snd (api_start st i)) evs')"
    by (simp add: api_start_def)
next
  assume a: "\<forall>e \<in> set evs'. \<not> is_close e"
  show "\<not> (\<exists>q q'. (fst (api_start st i) = OkPid q \<or> fst (api_start st i) = Ok) \<and>
                (fst (api_start (run (snd (api_start st i)) evs') i) = OkPid q' \<or>
                 fst (api_start (run (snd (api_start st i)) evs') i) = Ok))"
  proof
    assume "\<exists>q q'. (fst (api_start st i) = OkPid q \<or> fst (api_start st i) = Ok) \<and>
                (fst (api_start (run (snd (api_start st i)) evs') i) = OkPid q' \<or>
                 fst (api_start (run (snd (api_start st i)) evs') i) = Ok)"
    then obtain q q' where q: "fst (api_start st i) = OkPid q \<or> fst (api_start st i) = Ok"
      and q': "fst (api_start (run (snd (api_start st i)) evs') i) = OkPid q' \<or>
                 fst (api_start (run (snd (api_start st i)) evs') i) = Ok" by blast
    from q have "procMap (snd (api_start st i)) i \<noteq> None"
      by (rule api_start_replied)
    with a have "procMap (run (snd (api_start st i)) evs') i \<noteq> None"
      by (intro procMap_kept_run) simp_all
    then have "fst (api_start (run (snd (api_start st i)) evs') i) = Err 400 ''Already running''"
      by (simp add: api_start_def)
    with q' show False by simp
  qed
qed

theorem one_live_process_per_instance_witness:
  "supervised (run (startup ex_root ex_files 4711 True ex_parse)
      [Start ''alpha-k3x9q'', Start ''alpha-k3x9q'', Close 0 (Some 0), Start ''alpha-k3x9q'']) \<and>
   length (live_for (run (startup ex_root ex_files 4711 True ex_parse)
      [Start ''alpha-k3x9q'', Start ''alpha-k3x9q'', Close 0 (Some 0), Start ''alpha-k3x9q''])
      ''alpha-k3x9q'') \<le> 1 \<and>
   fst (api_start ex_state ''alpha-k3x9q'') = OkPid 4711 \<and>
   api_start (run (snd (api_start ex_state ''alpha-k3x9q''))
       [Stop ''alpha-k3x9q'', Command ''alpha-k3x9q'' (Some ''list''), Delete ''alpha-k3x9q'',
        Start ''beta-7h2mz'', Logs ''alpha-k3x9q'']) ''alpha-k3x9q''
     = (Err 400 ''Already running'',
        run (snd (api_start ex_state ''alpha-k3x9q''))
          [Stop ''alpha-k3x9q'', Command ''alpha-k3x9q'' (Some ''list''), Delete ''alpha-k3x9q'',
           Start ''beta-7h2mz'', Logs ''alpha-k3x9q''])"
proof -
  let ?evs = "[Start ''alpha-k3x9q'', Start ''alpha-k3x9q'', Close 0 (Some 0), Start ''alpha-k3x9q'']"
  let ?evs' = "[Stop ''alpha-k3x9q'', Command ''alpha-k3x9q'' (Some ''list''), Delete ''alpha-k3x9q'',
        Start ''beta-7h2mz'', Logs ''alpha-k3x9q'']"
  note t = one_live_process_per_instance [of ex_root ex_files 4711 True ex_parse ?evs "''alpha-k3x9q''" ?evs'
      ex_state ex_server 4711]
  have pre: "(\<forall>e \<in> set ?evs'. \<not> is_close e) \<and> procMap ex_state ''alpha-k3x9q'' = None \<and>
      getServer ex_state ''alpha-k3x9q'' = Normal (Some ex_server) \<and>
      existsSync ex_state (path_join (JAR_DIR ex_state) (jar ex_server))"
    by (simp add: ex_getServer_alpha ex_jarPath ex_jar_exists ex_state_sel)
  from t have a: "supervised (run (startup ex_root ex_files 4711 True ex_parse) ?evs)"
    "length (live_for (run (startup ex_root ex_files 4711 True ex_parse) ?evs) ''alpha-k3x9q'') \<le> 1"
    by blast+
  from t pre have b: "fst (api_start ex_state ''alpha-k3x9q'')
      = (if spawns ex_state ex_server then OkPid (os_pid ex_state) else Ok)"
    "api_start (run (snd (api_start ex_state ''alpha-k3x9q'')) ?evs') ''alpha-k3x9q''
      = (Err 400 ''Already running'', run (snd (api_start ex_state ''alpha-k3x9q'')) ?evs')"
    by blast+
  show ?thesis
    using a b ex_spawns by (simp only: ex_state_sel simp_thms if_True)
qed

subsection \<open>Stopping an instance\<close>

text \<open>
  Claim C3. \<^verbatim>\<open>stop(id)\<close> on an id that is not in the process map is refused with 400
  "Not running" (InvalidState). On a running instance of a supervised state the one
  chunk \<^verbatim>\<open>stop\<close> and a line feed is written to the input of its child and the reply is
  \<^verbatim>\<open>{ok: true}\<close> at once: nothing else changes, the child is not marked as exited, the
  process map and the files are as before. No event but a close takes the id out of
  the process map, and the close of another child leaves it in. The close listener of
  the child removes the id and appends to the log the trailer with the exit code.
\<close>

theorem stop_is_fire_and_forget:
  "(procMap st i = None \<longrightarrow>
      api_stop st i = (Err 400 ''Not running'', st) \<and>
      kind_of (fst (api_stop st i)) = Some InvalidState) \<and>
   (supervised st \<and> procMap st i = Some h \<longrightarrow>
      fst (api_stop st i) = Ok \<and>
      stdin (children (snd (api_stop st i)) ! h) = stdin (children st ! h) @ [''stop'' @ [LF]] \<and>
      (\<forall>k. k \<noteq> h \<longrightarrow> children (snd (api_stop st i)) ! k = children st ! k) \<and>
      length (children (snd (api_stop st i))) = length (children st) \<and>
      \<not> exited (children (snd (api_stop st i)) ! h) \<and>
      procMap (snd (api_stop st i)) = procMap st \<and>
      fs (snd (api_stop st i)) = fs st) \<and>
   (procMap st i \<noteq> None \<and> \<not> is_close e \<longrightarrow> procMap (step st e) i \<noteq> None) \<and>
   (supervised st \<and> procMap st i = Some h \<and> h' \<noteq> h \<longrightarrow>
      procMap (on_close st h' code) i = Some h) \<and>
   (supervised st \<and> procMap st i = Some h \<longrightarrow> procMap (on_close st h code) i = None) \<and>
   (supervised st \<and> procMap st i = Some h \<and>
      fs st (logFile (children st ! h)) = Some (File (Text t)) \<longrightarrow>
      fs (on_close st h (Some n)) (logFile (children st ! h)) =
        Some (File (Text (t @ LF # ''[process exited with code '' @ show_int n @ '']'' @ [LF]))))"
proof (intro conjI impI)
  assume "procMap st i = None"
  then show r: "api_stop st i = (Err 400 ''Not running'', st)"
    by (simp add: api_stop_def)
  show "kind_of (fst (api_stop st i)) = Some InvalidState"
    unfolding r by (simp add: kind_of_def)
next
  assume a: "supervised st \<and> procMap st i = Some h"
  then have h: "h < length (children st)" "\<not> exited (children st ! h)"
    unfolding supervised_def by blast+
  have r: "api_stop st i =
      (Ok, st\<lparr>children := (children st)[h := (children st ! h)\<lparr>stdin := stdin (children st ! h) @ [''stop'' @ [LF]]\<rparr>]\<rparr>)"
    using a h by (simp add: api_stop_def stdin_write_def)
  show "fst (api_stop st i) = Ok"
    and "stdin (children (snd (api_stop st i)) ! h) = stdin (children st ! h) @ [''stop'' @ [LF]]"
    and "\<forall>k. k \<noteq> h \<longrightarrow> children (snd (api_stop st i)) ! k = children st ! k"
    and "length (children (snd (api_stop st i))) = length (children st)"
    and "\<not> exited (children (snd (api_stop st i)) ! h)"
    and "procMap (snd (api_stop st i)) = procMap st"
    and "fs (snd (api_stop st i)) = fs st"
    using h by (simp_all add: r)
next
  assume "procMap st i \<noteq> None \<and> \<not> is_close e"
  then show "procMap (step st e) i \<noteq> None"
    by (simp add: procMap_kept)
next
  assume a: "supervised st \<and> procMap st i = Some h \<and> h' \<noteq> h"
  show "procMap (on_close st h' code) i = Some h"
  proof (cases "h' < length (children st) \<and> \<not> exited (children st ! h')")
    case True
    with a have "procMap st (owner (children st ! h')) = Some h'"
      unfolding supervised_def by blast
    with a have "owner (children st ! h') \<noteq> i" by auto
    with a True show ?thesis by (simp add: on_close_def Let_def)
  next
    case False
    with a show ?thesis by (auto simp: on_close_def)
  qed
next
  assume a: "supervised st \<and> procMap st i = Some h"
  then have "h < length (children st) \<and> \<not> exited (children st ! h) \<and> owner (children st ! h) = i"
    unfolding supervised_def by blast
  then show "procMap (on_close st h code) i = None"
    by (simp add: on_close_def Let_def)
next
  assume a: "supervised st \<and> procMap st i = Some h \<and>
      fs st (logFile (children st ! h)) = Some (File (Text t))"
  then have "h < length (children st) \<and> \<not> exited (children st ! h) \<and> owner (children st ! h) = i"
    unfolding supervised_def by blast
  with a show "fs (on_close st h (Some n)) (logFile (children st ! h)) =
        Some (File (Text (t @ LF # ''[process exited with code '' @ show_int n @ '']'' @ [LF])))"
    by (simp add: on_close_def Let_def appendFile_def trailer_def)
qed

theorem stop_is_fire_and_forget_witness:
  "api_stop ex_state ''alpha-k3x9q'' = (Err 400 ''Not running'', ex_state) \<and>
   fst (api_stop ex_running ''alpha-k3x9q'') = Ok \<and>
   stdin (children (snd (api_stop ex_running ''alpha-k3x9q'')) ! 0) = [''stop'' @ [LF]] \<and>
   procMap (snd (api_stop ex_running ''alpha-k3x9q'')) ''alpha-k3x9q'' = Some 0 \<and>
   procMap (step ex_running (Stop ''alpha-k3x9q'')) ''alpha-k3x9q'' \<noteq> None \<and>
   procMap (on_close ex_running 1 (Some 0)) ''alpha-k3x9q'' = Some 0 \<and>
   procMap (on_close ex_running 0 (Some 0)) ''alpha-k3x9q'' = None \<and>
   fs (on_close ex_running 0 (Some 0))
      [''srv'', ''mgr'', ''data'', ''servers'', ''alpha-k3x9q'', ''console.log''] =
     Some (File (Text (LF # ''[process exited with code 0]'' @ [LF])))"
proof -
  note z = show_0
  show ?thesis
    using stop_is_fire_and_forget [of ex_state "''alpha-k3x9q''" 0 "Stop ''alpha-k3x9q''" 1 "Some 0" "[]" 0]
      stop_is_fire_and_forget [of ex_running "''alpha-k3x9q''" 0 "Stop ''alpha-k3x9q''" 1 "Some 0" "[]" 0]
      supervised_ex_running ex_running_sel ex_running_log ex_state_sel z
    by simp
qed

subsection \<open>Sending a command\<close>

text \<open>
  Claim C4. The command handler refuses an id that is not in the process map (400
  "Not running") and an absent or empty command (400 "command required"), and tests
  the command before trimming it: a command of blanks only passes the test, is
  trimmed to nothing, and a lone line feed is written to the child with the reply
  \<^verbatim>\<open>{ok: true}\<close>.
\<close>

theorem blank_command_is_written:
  "trim ''   '' = [] \<and>
   fst (api_command ex_running ''alpha-k3x9q'' (Some ''   '')) = Ok \<and>
   stdin (children (snd (api_command ex_running ''alpha-k3x9q'' (Some ''   ''))) ! 0) = [[LF]] \<and>
   api_command ex_running ''alpha-k3x9q'' (Some []) = (Err 400 ''command required'', ex_running) \<and>
   api_command ex_state ''alpha-k3x9q'' (Some ''   '') = (Err 400 ''Not running'', ex_state) \<and>
   fst (api_command ex_running ''alpha-k3x9q'' (Some '' say hi '')) = Ok \<and>
   stdin (children (snd (api_command ex_running ''alpha-k3x9q'' (Some '' say hi ''))) ! 0)
     = [''say hi'' @ [LF]]"
  by (simp add: api_command_def stdin_write_def trim_def is_space_def ex_running_sel ex_state_sel)

subsection \<open>Reading the log\<close>

lemma split_lines_not_Nil [simp]: "split_lines s \<noteq> []"
  by (induction s rule: split_lines.induct) (auto split: list.split)

lemma split_lines_Cons:
  "c \<noteq> LF \<Longrightarrow> \<not> (c = CR \<and> s \<noteq> [] \<and> hd s = LF) \<Longrightarrow>
     split_lines (c # s) = (c # hd (split_lines s)) # tl (split_lines s)"
  by (cases s) (auto split: list.split)

lemma split_lines_LF: "split_lines (LF # s) = [] # split_lines s"
  by (cases s) auto

lemma split_lines_append:
  "LF \<notin> set l \<Longrightarrow> CR \<notin> set l \<Longrightarrow> split_lines (l @ LF # r) = l # split_lines r"
proof (induction l)
  case Nil
  then show ?case by (simp add: split_lines_LF)
next
  case (Cons c l)
  then have "split_lines (c # (l @ LF # r)) =
      (c # hd (split_lines (l @ LF # r))) # tl (split_lines (l @ LF # r))"
    by (intro split_lines_Cons) auto
  with Cons show ?case by simp
qed

lemma join_lines_Cons: "ls \<noteq> [] \<Longrightarrow> join_lines (l # ls) = l @ LF # join_lines ls"
  by (cases ls) auto

lemma length_join_lines:
  "length (join_lines ls) = sum_list (map length ls) + (length ls - 1)"
  by (induction ls rule: join_lines.induct) auto

lemma length_join_lines_tl: "length (join_lines ls) \<le> length (join_lines (l # ls))"
  by (cases ls) auto

lemma length_join_lines_drop: "length (join_lines (drop k ls)) \<le> length (join_lines ls)"
proof (induction k arbitrary: ls)
  case 0
  then show ?case by simp
next
  case (Suc k)
  show ?case
  proof (cases ls)
    case Nil
    then show ?thesis by simp
  next
    case (Cons l ls')
    have "length (join_lines (drop k ls')) \<le> length (join_lines ls')" by (rule Suc.IH)
    also have "\<dots> \<le> length (join_lines (l # ls'))" by (rule length_join_lines_tl)
    finally show ?thesis by (simp add: Cons)
  qed
qed

lemma join_lines_push: "join_lines ((c # s) # ss) = c # join_lines (s # ss)"
  by (cases ss) auto

lemma length_join_split: "length (join_lines (split_lines b)) \<le> length b"
proof (induction b rule: split_lines.induct)
  case 1
  then show ?case by simp
next
  case (2 c)
  then show ?case by simp
next
  case (3 c d cs)
  show ?case
  proof (cases "c = LF")
    case True
    with 3 show ?thesis by (simp add: join_lines_Cons)
  next
    case nl: False
    show ?thesis
    proof (cases "c = CR \<and> d = LF")
      case True
      with 3 nl show ?thesis by (simp add: join_lines_Cons)
    next
      case False
      obtain s ss where s: "split_lines (d # cs) = s # ss"
        by (cases "split_lines (d # cs)") (use split_lines_not_Nil in auto)
      from nl False have "split_lines (c # d # cs) = (c # s) # ss"
        by (auto simp: s)
      moreover from 3 nl False have "length (join_lines (s # ss)) \<le> length (d # cs)"
        by (auto simp: s)
      ultimately show ?thesis by (simp add: join_lines_push)
    qed
  qed
qed

lemma tail_text_eq:
  "tail_text bytes =
     join_lines (drop (length (split_lines (drop (length bytes - 1048576) bytes)) - 2000)
       (split_lines (drop (length bytes - 1048576) bytes)))"
proof -
  have "take (min (length bytes) 1048576) (drop (length bytes - min (length bytes) 1048576) bytes)
      = drop (length bytes - 1048576) bytes"
    by (cases "length bytes \<le> 1048576") (simp_all add: min_def)
  then show ?thesis by (simp add: tail_text_def Let_def)
qed

lemma length_tail_text: "length (tail_text bytes) \<le> 1048576"
proof -
  let ?b = "drop (length bytes - 1048576) bytes"
  have "length (tail_text bytes) \<le> length (join_lines (split_lines ?b))"
    unfolding tail_text_eq by (rule length_join_lines_drop)
  also have "\<dots> \<le> length ?b" by (rule length_join_split)
  also have "\<dots> \<le> 1048576" by simp
  finally show ?thesis .
qed

lemma split_lines_terminated:
  "LF \<notin> set l \<Longrightarrow> CR \<notin> set l \<Longrightarrow>
     split_lines (concat (replicate n (l @ [LF]))) = replicate n l @ [[]]"
  by (induction n) (simp_all add: split_lines_append)

lemma join_lines_terminated:
  "join_lines (replicate n l @ [[]]) = concat (replicate n (l @ [LF]))"
  by (induction n) (simp_all add: join_lines_Cons)

lemma length_concat_replicate: "length (concat (replicate n x)) = n * length x"
  by (induction n) simp_all

lemma length_join_lines_replicate: "length (join_lines (replicate n l)) = n * length l + (n - 1)"
  by (simp add: length_join_lines sum_list_replicate)

lemma tail_text_terminated:
  assumes "LF \<notin> set l" "CR \<notin> set l" "n * Suc (length l) \<le> 1048576"
  shows "tail_text (concat (replicate n (l @ [LF]))) = concat (replicate (min n 1999) (l @ [LF]))"
proof -
  let ?b = "concat (replicate n (l @ [LF]))"
  have "length ?b \<le> 1048576"
    using assms(3) by (simp add: length_concat_replicate)
  then have b: "drop (length ?b - 1048576) ?b = ?b"
    by simp
  have s: "split_lines ?b = replicate n l @ [[]]"
    using assms(1,2) by (rule split_lines_terminated)
  have "drop (Suc n - 2000) (replicate n l @ [[]]) = replicate (min n 1999) l @ [[]]"
    by (simp add: min_def)
  then show ?thesis
    unfolding tail_text_eq b s by (simp add: join_lines_terminated)
qed

lemma api_logs_text:
  "getServer st i = Normal (Some s) \<Longrightarrow>
     fs st (path_join (dir s) ''console.log'') = Some (File (Text b)) \<Longrightarrow>
     api_logs st i = Plain (tail_text b)"
  by (simp add: api_logs_def)

text \<open>
  Claim C5. The handler is commented "last 2000 lines or 1 MB". The split at line
  feeds also yields the empty piece after the last line feed, and that piece is one
  of the 2000 kept. Of a log of 3000 lines, each ended by its line feed as the server
  writes them (6000 bytes), the 3001 pieces are the 3000 lines and the empty piece,
  and the text returned is the last 1999 lines, each with its line feed: neither the
  last 2000 lines joined by line feeds nor the last 2000 lines with their line feeds.
\<close>

theorem tail_of_3000_lines_is_1999:
  "length ex_log3000 = 6000 \<and>
   split_lines ex_log3000 = replicate 3000 ''a'' @ [[]] \<and>
   api_logs (ex_logged ex_log3000) ''alpha-k3x9q''
     = Plain (concat (replicate 1999 (''a'' @ [LF]))) \<and>
   api_logs (ex_logged ex_log3000) ''alpha-k3x9q''
     \<noteq> Plain (join_lines (replicate 2000 ''a'')) \<and>
   api_logs (ex_logged ex_log3000) ''alpha-k3x9q''
     \<noteq> Plain (concat (replicate 2000 (''a'' @ [LF])))"
proof -
  have a: "LF \<notin> set ''a''" "CR \<notin> set ''a''"
    by (simp_all add: LF_def CR_def)
  have len: "length ex_log3000 = 6000"
    unfolding ex_log3000_def length_concat_replicate by simp
  have sp: "split_lines ex_log3000 = replicate 3000 ''a'' @ [[]]"
    unfolding ex_log3000_def using a by (rule split_lines_terminated)
  have m: "min (3000::nat) 1999 = 1999"
    by simp
  have "(3000::nat) * Suc (length ''a'') \<le> 1048576"
    by simp
  then have t: "tail_text ex_log3000 = concat (replicate 1999 (''a'' @ [LF]))"
    unfolding ex_log3000_def using tail_text_terminated [OF a, of 3000] by (simp only: m)
  have r: "api_logs (ex_logged ex_log3000) ''alpha-k3x9q''
      = Plain (concat (replicate 1999 (''a'' @ [LF])))"
    using api_logs_text [OF ex_logged_getServer ex_logged_log, of ex_log3000] by (simp only: t)
  have l1: "length (concat (replicate 1999 (''a'' @ [LF]))) = 3998"
    unfolding length_concat_replicate by simp
  have l2: "length (join_lines (replicate 2000 ''a'')) = 3999"
    unfolding length_join_lines_replicate by simp
  have l3: "length (concat (replicate 2000 (''a'' @ [LF]))) = 4000"
    unfolding length_concat_replicate by simp
  have n2: "concat (replicate 1999 (''a'' @ [LF])) \<noteq> join_lines (replicate 2000 ''a'')"
  proof
    assume "concat (replicate 1999 (''a'' @ [LF])) = join_lines (replicate 2000 ''a'')"
    then have "length (concat (replicate 1999 (''a'' @ [LF]))) = length (join_lines (replicate 2000 ''a''))"
      by (rule arg_cong)
    then show False unfolding l1 l2 by simp
  qed
  have n3: "concat (replicate 1999 (''a'' @ [LF])) \<noteq> concat (replicate 2000 (''a'' @ [LF]))"
  proof
    assume "concat (replicate 1999 (''a'' @ [LF])) = concat (replicate 2000 (''a'' @ [LF]))"
    then have "length (concat (replicate 1999 (''a'' @ [LF]))) = length (concat (replicate 2000 (''a'' @ [LF])))"
      by (rule arg_cong)
    then show False unfolding l1 l3 by simp
  qed
  show ?thesis
    unfolding r reply.inject using len sp n2 n3 by (intro conjI refl)
qed

subsection \<open>Identifiers and paths\<close>

lemma basename_no_slash: "CHR ''/'' \<notin> set (basename j)"
  by (auto simp: basename_def dest: set_takeWhileD)

lemma split_on_plain: "c \<notin> set s \<Longrightarrow> split_on c s = [s]"
  by (induction s) auto

lemma path_join_segment:
  "CHR ''/'' \<notin> set s \<Longrightarrow> s \<noteq> [] \<Longrightarrow> s \<noteq> ''.'' \<Longrightarrow> s \<noteq> ''..'' \<Longrightarrow> path_join p s = p @ [s]"
  by (simp add: path_join_def split_on_plain path_step_def)

lemma path_join_basename:
  "path_join p (basename j) =
     (if basename j = [] \<or> basename j = ''.'' then p
      else if basename j = ''..'' then butlast p else p @ [basename j])"
  by (simp add: path_join_def split_on_plain basename_no_slash path_step_def)

lemma set_replace_runs: "set (replace_runs b s) \<subseteq> {c. is_slug_char c} \<union> {CHR ''-''}"
  by (induction b s rule: replace_runs.induct) auto

lemma set_strip_hyphens: "set (strip_hyphens s) \<subseteq> set s"
  by (auto simp: strip_hyphens_def Let_def split: list.splits if_splits dest: in_set_butlastD)

lemma set_slug: "set (slug nm) \<subseteq> {c. is_slug_char c} \<union> {CHR ''-''}"
  unfolding slug_def using set_strip_hyphens set_replace_runs by blast

lemma random_suffix:
  "substring 2 7 (random_base36 ds) = map (\<lambda>d. digit_char (d mod 36)) (take 5 ds)"
  by (simp add: substring_def random_base36_def take_map)

lemma is_slug_char_digit: "is_slug_char (digit_char (d mod 36))"
proof -
  have "d mod 36 < 36" by simp
  then have "d mod 36 \<le> 35" by linarith
  then show ?thesis
    by (simp add: is_slug_char_def digit_char_def)
qed

lemma generateId_eq:
  "generateId nm ds = slug nm @ ''-'' @ map (\<lambda>d. digit_char (d mod 36)) (take 5 ds)"
  by (simp add: generateId_def random_suffix)

lemma set_generateId: "set (generateId nm ds) \<subseteq> {c. is_slug_char c} \<union> {CHR ''-''}"
  using set_slug [of nm] by (auto simp: generateId_eq is_slug_char_digit)

lemma generateId_segment:
  "CHR ''/'' \<notin> set (generateId nm ds)" "generateId nm ds \<noteq> []"
  "generateId nm ds \<noteq> ''.''" "generateId nm ds \<noteq> ''..''"
proof -
  have "\<not> is_slug_char CHR ''/''" by (simp add: is_slug_char_def)
  then show "CHR ''/'' \<notin> set (generateId nm ds)"
    using set_generateId [of nm ds] by auto
  have "CHR ''-'' \<in> set (generateId nm ds)" by (simp add: generateId_eq)
  then show "generateId nm ds \<noteq> []" "generateId nm ds \<noteq> ''.''" "generateId nm ds \<noteq> ''..''"
    by auto
qed

lemma instance_dir: "path_join (SERVERS_DIR st) (generateId nm ds) = SERVERS_DIR st @ [generateId nm ds]"
  by (simp add: path_join_segment generateId_segment)

lemma path_join_file [simp]:
  "path_join d ''server.properties'' = d @ [''server.properties'']"
  "path_join d ''eula.txt'' = d @ [''eula.txt'']"
  "path_join d ''console.log'' = d @ [''console.log'']"
  by (simp_all add: path_join_def path_step_def)

text \<open>A successful create, written out.\<close>

lemma api_create_ok:
  fixes st ds nm p memO j
  defines "i \<equiv> generateId nm ds"
  defines "d \<equiv> SERVERS_DIR st @ [i]"
  defines "r \<equiv> \<lparr>id_s = i, name = nm, port = p,
      maxMemoryMB = (case memO of None \<Rightarrow> 1024 | Some m \<Rightarrow> if m = 0 then 1024 else m),
      jar = basename j, dir = d\<rparr>"
  assumes ok: "nm \<noteq> []" "p \<noteq> 0" "j \<noteq> []" "existsSync st (path_join (JAR_DIR st) (basename j))"
    and xs: "loadServers st = Array xs"
  shows "fst (api_create st ds (Some nm) (Some p) memO (Some j)) = Json r"
    and "fs (snd (api_create st ds (Some nm) (Some p) memO (Some j))) =
      (\<lambda>q. if q = STATE_FILE st then Some (File (Registry (xs @ [r])))
           else if q = d @ [''eula.txt''] then Some (File (Text (''eula=true'' @ [LF])))
           else if q = d @ [''server.properties''] \<and> fs st q = None
             then Some (File (Text (server_properties p)))
           else if prefix q d \<and> fs st q = None then Some Dir
           else fs st q)"
proof -
  let ?sp = "d @ [''server.properties'']"
  let ?st1 = "mkdirSync st d"
  let ?st2 = "if \<not> existsSync ?st1 ?sp then writeFileSync ?st1 ?sp (Text (server_properties p)) else ?st1"
  let ?st3 = "writeFileSync ?st2 (d @ [''eula.txt'']) (Text (''eula=true'' @ [LF]))"
  have c0: "api_create st ds (Some nm) (Some p) memO (Some j) =
      (case loadServers ?st3 of
         NotArray \<Rightarrow> (Uncaught, ?st3)
       | Array servers \<Rightarrow> (Json r, saveServers ?st3 (servers @ [r])))"
    using ok
    by (simp add: api_create_def Let_def instance_dir i_def d_def r_def cong: jsval.case_cong)
  have np: "\<not> prefix (STATE_FILE st) d"
    by (simp add: d_def STATE_FILE_eq SERVERS_DIR_eq)
  have ne: "STATE_FILE st \<noteq> d @ [''eula.txt'']" "STATE_FILE st \<noteq> d @ [''server.properties'']"
    by (simp_all add: d_def STATE_FILE_eq SERVERS_DIR_eq)
  have sf: "STATE_FILE ?st3 = STATE_FILE st"
    by (simp add: STATE_FILE_eq writeFileSync_def mkdirSync_def)
  have "fs ?st3 (STATE_FILE st) = fs st (STATE_FILE st)"
    using np ne by (simp add: writeFileSync_def mkdirSync_def)
  moreover have "JSON_parse ?st3 = JSON_parse st"
    by (simp add: writeFileSync_def mkdirSync_def)
  ultimately have l: "loadServers ?st3 = Array xs"
    unfolding xs [symmetric] by (simp only: loadServers_def load_result_def sf)
  have c: "api_create st ds (Some nm) (Some p) memO (Some j) =
      (Json r, saveServers ?st3 (xs @ [r]))"
    unfolding c0 l by simp
  show "fst (api_create st ds (Some nm) (Some p) memO (Some j)) = Json r"
    by (simp add: c)
  show "fs (snd (api_create st ds (Some nm) (Some p) memO (Some j))) =
      (\<lambda>q. if q = STATE_FILE st then Some (File (Registry (xs @ [r])))
           else if q = d @ [''eula.txt''] then Some (File (Text (''eula=true'' @ [LF])))
           else if q = d @ [''server.properties''] \<and> fs st q = None
             then Some (File (Text (server_properties p)))
           else if prefix q d \<and> fs st q = None then Some Dir
           else fs st q)"
    unfolding c
    by (auto simp: fun_eq_iff saveServers_def writeFileSync_def mkdirSync_def existsSync_def
        STATE_FILE_eq)
qed


lemma api_create_registry:
  assumes "nm \<noteq> []" "p \<noteq> 0" "j \<noteq> []" "existsSync st (path_join (JAR_DIR st) (basename j))"
    "loadServers st = Array xs"
  shows "loadServers (snd (api_create st ds (Some nm) (Some p) memO (Some j))) =
    Array (xs @
      [\<lparr>id_s = generateId nm ds, name = nm, port = p,
        maxMemoryMB = (case memO of None \<Rightarrow> 1024 | Some m \<Rightarrow> if m = 0 then 1024 else m),
        jar = basename j, dir = SERVERS_DIR st @ [generateId nm ds]\<rparr>])"
proof -
  have "STATE_FILE (snd (api_create st ds (Some nm) (Some p) memO (Some j))) = STATE_FILE st"
    by (simp add: STATE_FILE_eq api_create_frame)
  then show ?thesis
    by (simp add: loadServers_def load_result_def api_create_ok(2) [OF assms])
qed

lemma api_create_Json:
  "fst (api_create st ds nameO portO memO jarO) = Json r \<Longrightarrow>
     \<exists>nm p j. nameO = Some nm \<and> portO = Some p \<and> jarO = Some j \<and> nm \<noteq> [] \<and> p \<noteq> 0 \<and> j \<noteq> [] \<and>
       existsSync st (path_join (JAR_DIR st) (basename j))"
  by (auto simp: api_create_def Let_def split: option.splits if_splits jsval.splits)




lemma ex_gamma_id:
  "slug ''Gamma World'' @ ''-'' @ map (\<lambda>d. digit_char (d mod 36)) (take 5 [7, 2, 3, 10, 35, 4])
     = ''gamma-world-723az''"
  by code_simp




lemma ex_SERVERS_DIR: "SERVERS_DIR ex_state = [''srv'', ''mgr'', ''data'', ''servers'']"
  by (simp add: SERVERS_DIR_eq ex_state_sel ex_root_def)















subsection \<open>A jar named \<^verbatim>\<open>..\<close>\<close>

lemma ex_dotdot_jar:
  "basename ''..'' = ''..''"
  "path_join (JAR_DIR ex_state) (basename ''..'') = [''srv'', ''mgr'', ''data'']"
  "existsSync ex_state (path_join (JAR_DIR ex_state) (basename ''..''))"
proof -
  show b: "basename ''..'' = ''..''"
    by (simp add: basename_def)
  show p: "path_join (JAR_DIR ex_state) (basename ''..'') = [''srv'', ''mgr'', ''data'']"
    by (simp add: b JAR_DIR_eq path_join_def path_step_def ex_state_sel ex_root_def)
  show "existsSync ex_state (path_join (JAR_DIR ex_state) (basename ''..''))"
    unfolding p by (simp add: existsSync_def ex_state_sel ex_files_def)
qed

lemma ex_gamma_generateId: "generateId ''Gamma World'' [7, 2, 3, 10, 35, 4] = ''gamma-world-723az''"
  unfolding generateId_eq by (rule ex_gamma_id)

lemma ex_dotdot_sel:
  "procMap ex_dotdot = Map.empty" "children ex_dotdot = []" "os_pid ex_dotdot = 4711"
  "dirname ex_dotdot = ex_root" "java_on_path ex_dotdot"
  by (simp_all add: ex_dotdot_def api_create_frame ex_state_sel)

lemma ex_dotdot_getServer:
  "getServer ex_dotdot ''gamma-world-723az'' =
     Normal (Some \<lparr>id_s = ''gamma-world-723az'', name = ''Gamma World'', port = 25570,
            maxMemoryMB = 1024, jar = ''..'',
            dir = [''srv'', ''mgr'', ''data'', ''servers'', ''gamma-world-723az'']\<rparr>)"
proof -
  have n: "(''Gamma World'' :: string) \<noteq> []" "(25570 :: int) \<noteq> 0" "(''..'' :: string) \<noteq> []"
    by simp_all
  have "loadServers ex_dotdot =
      Array [ex_server, ex_server2,
       \<lparr>id_s = ''gamma-world-723az'', name = ''Gamma World'', port = 25570, maxMemoryMB = 1024,
         jar = ''..'', dir = [''srv'', ''mgr'', ''data'', ''servers'', ''gamma-world-723az'']\<rparr>]"
    unfolding ex_dotdot_def api_create_registry [OF n ex_dotdot_jar(3) ex_loadServers]
    by (simp add: ex_dotdot_jar(1) ex_gamma_generateId ex_SERVERS_DIR)
  then show ?thesis
    by (simp add: getServer_def ex_server_def ex_server2_def)
qed

lemma ex_dotdot_data_dir:
  "fs ex_dotdot [''srv'', ''mgr'', ''data''] = Some Dir"
  "fs ex_dotdot [''srv'', ''mgr'', ''data'', ''servers'', ''gamma-world-723az''] = Some Dir"
proof -
  have n: "(''Gamma World'' :: string) \<noteq> []" "(25570 :: int) \<noteq> 0" "(''..'' :: string) \<noteq> []"
    by simp_all
  show "fs ex_dotdot [''srv'', ''mgr'', ''data''] = Some Dir"
    "fs ex_dotdot [''srv'', ''mgr'', ''data'', ''servers'', ''gamma-world-723az''] = Some Dir"
    unfolding ex_dotdot_def api_create_ok(2) [OF n ex_dotdot_jar(3) ex_loadServers]
    by (simp_all add: ex_gamma_generateId STATE_FILE_eq ex_SERVERS_DIR ex_state_sel ex_root_def
        ex_files_def)
qed

text \<open>
  Claim C10. The record made by create stores the base name of the jar given, which
  has no separator, and start joins the jar directory with it. The base name of
  \<^verbatim>\<open>..\<close> is \<^verbatim>\<open>..\<close> itself: create finds the data directory under that name, accepts
  it and stores it, and start then launches \<^verbatim>\<open>java -jar\<close> on the data directory, the
  parent of the jar directory.
\<close>

theorem jar_dotdot_leaves_jar_dir:
  "fst (api_create ex_state [7, 2, 3, 10, 35, 4] (Some ''Gamma World'') (Some 25570) None (Some ''..''))
     = Json \<lparr>id_s = ''gamma-world-723az'', name = ''Gamma World'', port = 25570, maxMemoryMB = 1024,
             jar = ''..'', dir = [''srv'', ''mgr'', ''data'', ''servers'', ''gamma-world-723az'']\<rparr> \<and>
   fst (api_start ex_dotdot ''gamma-world-723az'') = OkPid 4711 \<and>
   args (children (snd (api_start ex_dotdot ''gamma-world-723az'')) ! 0)
     = [''-Xmx1024M'', ''-Xms512M'', ''-jar'', ''/srv/mgr/data'', ''nogui''] \<and>
   JAR_DIR ex_dotdot = [''srv'', ''mgr'', ''data'', ''jars''] \<and>
   path_join (JAR_DIR ex_dotdot) ''..'' = [''srv'', ''mgr'', ''data''] \<and>
   strict_prefix [''srv'', ''mgr'', ''data''] (JAR_DIR ex_dotdot)"
proof -
  have n: "(''Gamma World'' :: string) \<noteq> []" "(25570 :: int) \<noteq> 0" "(''..'' :: string) \<noteq> []"
    by simp_all
  have c: "fst (api_create ex_state [7, 2, 3, 10, 35, 4] (Some ''Gamma World'') (Some 25570) None (Some ''..''))
     = Json \<lparr>id_s = ''gamma-world-723az'', name = ''Gamma World'', port = 25570, maxMemoryMB = 1024,
             jar = ''..'', dir = [''srv'', ''mgr'', ''data'', ''servers'', ''gamma-world-723az'']\<rparr>"
    unfolding api_create_ok(1) [OF n ex_dotdot_jar(3) ex_loadServers]
    by (simp add: ex_gamma_generateId ex_SERVERS_DIR ex_dotdot_jar(1))
  have jd: "JAR_DIR ex_dotdot = [''srv'', ''mgr'', ''data'', ''jars'']"
    by (simp add: JAR_DIR_eq ex_dotdot_sel ex_root_def)
  have jp: "path_join (JAR_DIR ex_dotdot) ''..'' = [''srv'', ''mgr'', ''data'']"
    by (simp add: jd path_join_def path_step_def)
  let ?r = "\<lparr>id_s = ''gamma-world-723az'', name = ''Gamma World'', port = 25570, maxMemoryMB = 1024,
             jar = ''..'', dir = [''srv'', ''mgr'', ''data'', ''servers'', ''gamma-world-723az'']\<rparr>"
  have e: "existsSync ex_dotdot (path_join (JAR_DIR ex_dotdot) (jar ?r))"
    by (simp add: jp existsSync_def ex_dotdot_data_dir)
  have pm: "procMap ex_dotdot ''gamma-world-723az'' = None"
    by (simp add: ex_dotdot_sel)
  have sp: "spawns ex_dotdot ?r"
    by (simp add: spawns_def ex_dotdot_sel ex_dotdot_data_dir)
  note s = api_start_ok [OF pm ex_dotdot_getServer e sp]
  have a: "args (children (snd (api_start ex_dotdot ''gamma-world-723az'')) ! 0)
     = [''-Xmx1024M'', ''-Xms512M'', ''-jar'', ''/srv/mgr/data'', ''nogui'']"
    by (simp add: s ex_dotdot_sel launch_args_def jp path_str_def show_1024 show_512)
  have o: "fst (api_start ex_dotdot ''gamma-world-723az'') = OkPid 4711"
    by (simp add: s ex_dotdot_sel)
  show ?thesis
    using c a o jd jp by (simp add: strict_prefix_def)
qed

subsection \<open>Loading the registry\<close>

lemma saveServers_frame [simp]:
  "procMap (saveServers st xs) = procMap st" "children (saveServers st xs) = children st"
  "dirname (saveServers st xs) = dirname st" "os_pid (saveServers st xs) = os_pid st"
  "STATE_FILE (saveServers st xs) = STATE_FILE st" "JAR_DIR (saveServers st xs) = JAR_DIR st"
  "SERVERS_DIR (saveServers st xs) = SERVERS_DIR st"
  "java_on_path (saveServers st xs) = java_on_path st"
  "JSON_parse (saveServers st xs) = JSON_parse st" "crashed (saveServers st xs) = crashed st"
  by (simp_all add: saveServers_def writeFileSync_def STATE_FILE_eq JAR_DIR_eq SERVERS_DIR_eq)

lemma fs_saveServers:
  "fs (saveServers st xs) = (fs st)(STATE_FILE st \<mapsto> File (Registry xs))"
  by (simp add: saveServers_def writeFileSync_def)

lemma jar_path_not_state_file: "path_join (JAR_DIR st) (basename j) \<noteq> STATE_FILE st"
  by (simp add: path_join_basename JAR_DIR_eq STATE_FILE_eq butlast_append)

lemma existsSync_jar_saveServers:
  "existsSync (saveServers st xs) (path_join (JAR_DIR st) (basename j)) =
     existsSync st (path_join (JAR_DIR st) (basename j))"
  by (simp add: existsSync_def fs_saveServers jar_path_not_state_file)

lemma api_create_empty_registry:
  assumes "loadServers st = Array []"
  shows "fst (api_create (saveServers st []) ds nameO portO memO jarO) =
      fst (api_create st ds nameO portO memO jarO)"
    and "fst (api_create st ds nameO portO memO jarO) = Json r \<Longrightarrow>
      snd (api_create (saveServers st []) ds nameO portO memO jarO) =
        snd (api_create st ds nameO portO memO jarO) \<and>
      loadServers (snd (api_create st ds nameO portO memO jarO)) = Array [r]"
proof -
  let ?st0 = "saveServers st []"
  show r: "fst (api_create ?st0 ds nameO portO memO jarO) = fst (api_create st ds nameO portO memO jarO)"
  proof (cases "\<exists>nm p j. nameO = Some nm \<and> portO = Some p \<and> jarO = Some j \<and> nm \<noteq> [] \<and> p \<noteq> 0 \<and>
      j \<noteq> [] \<and> existsSync st (path_join (JAR_DIR st) (basename j))")
    case True
    then obtain nm p j where v: "nameO = Some nm" "portO = Some p" "jarO = Some j"
      and ok: "nm \<noteq> []" "p \<noteq> 0" "j \<noteq> []" "existsSync st (path_join (JAR_DIR st) (basename j))"
      by blast
    from ok(4) have ok0: "existsSync ?st0 (path_join (JAR_DIR ?st0) (basename j))"
      by (simp add: existsSync_jar_saveServers)
    have l0: "loadServers ?st0 = Array []"
      by (rule loadServers_saveServers)
    show ?thesis
      unfolding v api_create_ok(1) [OF ok assms] api_create_ok(1) [OF ok(1-3) ok0 l0] by simp
  next
    case False
    then show ?thesis
      by (auto simp: api_create_def Let_def existsSync_jar_saveServers split: option.splits)
  qed
  assume j: "fst (api_create st ds nameO portO memO jarO) = Json r"
  then obtain nm p j where v: "nameO = Some nm" "portO = Some p" "jarO = Some j"
    and ok: "nm \<noteq> []" "p \<noteq> 0" "j \<noteq> []" "existsSync st (path_join (JAR_DIR st) (basename j))"
    using api_create_Json by blast
  from ok(4) have ok0: "existsSync ?st0 (path_join (JAR_DIR ?st0) (basename j))"
    by (simp add: existsSync_jar_saveServers)
  have l0: "loadServers ?st0 = Array []"
    by (rule loadServers_saveServers)
  have "fs (snd (api_create ?st0 ds nameO portO memO jarO)) = fs (snd (api_create st ds nameO portO memO jarO))"
    unfolding v api_create_ok(2) [OF ok assms] api_create_ok(2) [OF ok(1-3) ok0 l0]
    by (auto simp: fun_eq_iff fs_saveServers)
  then have "snd (api_create ?st0 ds nameO portO memO jarO) = snd (api_create st ds nameO portO memO jarO)"
    by (intro state.equality) (simp_all add: api_create_frame)
  moreover have "loadServers (snd (api_create st ds nameO portO memO jarO)) = Array [r]"
    using j unfolding v api_create_registry [OF ok assms] api_create_ok(1) [OF ok assms]
    by (simp add: generateId_eq)
  ultimately show "snd (api_create ?st0 ds nameO portO memO jarO) =
        snd (api_create st ds nameO portO memO jarO) \<and>
      loadServers (snd (api_create st ds nameO portO memO jarO)) = Array [r]"
    by simp
qed

text \<open>
  Claim C9. \<^verbatim>\<open>loadServers\<close> returns the empty array, and prints nothing, when
  \<^verbatim>\<open>servers.json\<close> is absent; it returns the empty array and prints one line on the
  console when the file is there and \<^verbatim>\<open>JSON.parse\<close> throws on its text. In both cases
  every handler that reads the registry replies as it does when the file holds the
  empty array: the list is empty, looking up, tailing and deleting any id give 404
  "Not found", start replies as with the empty registry and changes nothing, and
  create replies the same and leaves the same state, with the new record as the whole
  registry.
\<close>

theorem load_never_escalates:
  "(fs st (STATE_FILE st) = None \<longrightarrow> load_result st = (Array [], [])) \<and>
   (fs st (STATE_FILE st) = Some (File (Text t)) \<and> JSON_parse st t = None \<longrightarrow>
      load_result st = (Array [], [''Failed to parse servers.json:''])) \<and>
   (fs st (STATE_FILE st) = None \<or>
      (fs st (STATE_FILE st) = Some (File (Text t)) \<and> JSON_parse st t = None) \<longrightarrow>
      loadServers st = Array [] \<and>
      api_list st = JsonList [] \<and> api_list (saveServers st []) = JsonList [] \<and>
      getServer st i = Normal None \<and> getServer (saveServers st []) i = Normal None \<and>
      api_logs st i = Err 404 ''Not found'' \<and>
      api_logs (saveServers st []) i = Err 404 ''Not found'' \<and>
      api_delete st i = (Err 404 ''Not found'', st) \<and>
      api_delete (saveServers st []) i = (Err 404 ''Not found'', saveServers st []) \<and>
      fst (api_start st i) = fst (api_start (saveServers st []) i) \<and>
      snd (api_start st i) = st \<and>
      fst (api_create st ds nameO portO memO jarO) =
        fst (api_create (saveServers st []) ds nameO portO memO jarO) \<and>
      (\<forall>r. fst (api_create st ds nameO portO memO jarO) = Json r \<longrightarrow>
         snd (api_create st ds nameO portO memO jarO) =
           snd (api_create (saveServers st []) ds nameO portO memO jarO) \<and>
         loadServers (snd (api_create st ds nameO portO memO jarO)) = Array [r]))"
proof (intro conjI impI)
  assume "fs st (STATE_FILE st) = None"
  then show "load_result st = (Array [], [])"
    by (simp add: load_result_def)
next
  assume "fs st (STATE_FILE st) = Some (File (Text t)) \<and> JSON_parse st t = None"
  then show "load_result st = (Array [], [''Failed to parse servers.json:''])"
    by (simp add: load_result_def)
next
  assume "fs st (STATE_FILE st) = None \<or>
      (fs st (STATE_FILE st) = Some (File (Text t)) \<and> JSON_parse st t = None)"
  then show l: "loadServers st = Array []"
    by (auto simp: loadServers_def load_result_def)
  have l0: "loadServers (saveServers st []) = Array []"
    by (rule loadServers_saveServers)
  show "api_list st = JsonList []" "api_list (saveServers st []) = JsonList []"
    by (simp_all add: api_list_def l l0)
  show g: "getServer st i = Normal None" and g0: "getServer (saveServers st []) i = Normal None"
    by (simp_all add: getServer_def l l0)
  show "api_logs st i = Err 404 ''Not found''"
    "api_logs (saveServers st []) i = Err 404 ''Not found''"
    by (simp_all add: api_logs_def g g0)
  show "api_delete st i = (Err 404 ''Not found'', st)"
    "api_delete (saveServers st []) i = (Err 404 ''Not found'', saveServers st [])"
    by (simp_all add: api_delete_def l l0)
  show "fst (api_start st i) = fst (api_start (saveServers st []) i)"
    by (simp add: api_start_def g g0)
  show "snd (api_start st i) = st"
    by (simp add: api_start_def g)
  show "fst (api_create st ds nameO portO memO jarO) =
        fst (api_create (saveServers st []) ds nameO portO memO jarO)"
    by (simp add: api_create_empty_registry(1) [OF l])
  show "\<forall>r. fst (api_create st ds nameO portO memO jarO) = Json r \<longrightarrow>
         snd (api_create st ds nameO portO memO jarO) =
           snd (api_create (saveServers st []) ds nameO portO memO jarO) \<and>
         loadServers (snd (api_create st ds nameO portO memO jarO)) = Array [r]"
    using api_create_empty_registry(2) [OF l] by simp
qed

lemma ex_missing_file: "fs ex_missing (STATE_FILE ex_missing) = None"
  by (simp add: ex_missing_def STATE_FILE_eq ex_state_sel ex_root_def)

lemma ex_corrupt_file:
  "fs ex_corrupt (STATE_FILE ex_corrupt) = Some (File (Text ''[{ id:'')) \<and>
     JSON_parse ex_corrupt ''[{ id:'' = None"
  by (simp add: ex_corrupt_def STATE_FILE_eq ex_state_sel ex_root_def ex_parse_def)

lemma ex_corrupt_loadServers: "loadServers ex_corrupt = Array []"
  using ex_corrupt_file by (simp add: loadServers_def load_result_def)

lemma ex_corrupt_create:
  "fst (api_create ex_corrupt [7, 2, 3, 10, 35, 4] (Some ''Gamma World'') (Some 25570) (Some 0)
          (Some ''paper.jar''))
     = Json \<lparr>id_s = ''gamma-world-723az'', name = ''Gamma World'', port = 25570, maxMemoryMB = 1024,
             jar = ''paper.jar'',
             dir = [''srv'', ''mgr'', ''data'', ''servers'', ''gamma-world-723az'']\<rparr>"
proof -
  have n: "(''Gamma World'' :: string) \<noteq> []" "(25570 :: int) \<noteq> 0" "(''paper.jar'' :: string) \<noteq> []"
    by simp_all
  have b: "basename ''paper.jar'' = ''paper.jar''"
    by (simp add: basename_def)
  have d: "dirname ex_corrupt = ex_root"
    by (simp add: ex_corrupt_def ex_state_sel)
  have e: "existsSync ex_corrupt (path_join (JAR_DIR ex_corrupt) (basename ''paper.jar''))"
    by (simp add: b JAR_DIR_eq d ex_root_def path_join_def path_step_def existsSync_def)
      (simp add: ex_corrupt_def ex_files_def)
  show ?thesis
    unfolding api_create_ok(1) [OF n e ex_corrupt_loadServers]
    by (simp add: b ex_gamma_generateId SERVERS_DIR_eq d ex_root_def)
qed

theorem load_never_escalates_witness:
  "load_result ex_missing = (Array [], []) \<and>
   load_result ex_corrupt = (Array [], [''Failed to parse servers.json:'']) \<and>
   api_list ex_missing = JsonList [] \<and>
   api_list ex_corrupt = JsonList [] \<and>
   api_logs ex_corrupt ''alpha-k3x9q'' = Err 404 ''Not found'' \<and>
   api_delete ex_corrupt ''alpha-k3x9q'' = (Err 404 ''Not found'', ex_corrupt) \<and>
   snd (api_start ex_corrupt ''alpha-k3x9q'') = ex_corrupt \<and>
   loadServers (snd (api_create ex_corrupt [7, 2, 3, 10, 35, 4] (Some ''Gamma World'') (Some 25570)
       (Some 0) (Some ''paper.jar'')))
     = Array [\<lparr>id_s = ''gamma-world-723az'', name = ''Gamma World'', port = 25570,
          maxMemoryMB = 1024, jar = ''paper.jar'',
          dir = [''srv'', ''mgr'', ''data'', ''servers'', ''gamma-world-723az'']\<rparr>]"
proof -
  note m = load_never_escalates [where st = ex_missing and t = "[]" and i = "''alpha-k3x9q''"]
  note c = load_never_escalates [where st = ex_corrupt and t = "''[{ id:''"
      and i = "''alpha-k3x9q''" and ds = "[7, 2, 3, 10, 35, 4]" and nameO = "Some ''Gamma World''"
      and portO = "Some 25570" and memO = "Some 0" and jarO = "Some ''paper.jar''"]
  note m1 = m [THEN conjunct1, THEN mp, OF ex_missing_file]
  note m3 = m [THEN conjunct2, THEN conjunct2, THEN mp, OF disjI1, OF ex_missing_file]
  note c2 = c [THEN conjunct2, THEN conjunct1, THEN mp, OF ex_corrupt_file]
  note c3 = c [THEN conjunct2, THEN conjunct2, THEN mp, OF disjI2, OF ex_corrupt_file]
  from c3 ex_corrupt_create have cr: "loadServers (snd (api_create ex_corrupt [7, 2, 3, 10, 35, 4]
       (Some ''Gamma World'') (Some 25570) (Some 0) (Some ''paper.jar'')))
     = Array [\<lparr>id_s = ''gamma-world-723az'', name = ''Gamma World'', port = 25570,
          maxMemoryMB = 1024, jar = ''paper.jar'',
          dir = [''srv'', ''mgr'', ''data'', ''servers'', ''gamma-world-723az'']\<rparr>]"
    by blast
  from m3 have ml: "api_list ex_missing = JsonList []" by blast
  from c3 have cl: "api_list ex_corrupt = JsonList []"
    "api_logs ex_corrupt ''alpha-k3x9q'' = Err 404 ''Not found''"
    "api_delete ex_corrupt ''alpha-k3x9q'' = (Err 404 ''Not found'', ex_corrupt)"
    "snd (api_start ex_corrupt ''alpha-k3x9q'') = ex_corrupt"
    by blast+
  show ?thesis
    by (intro conjI m1 c2 ml cl cr)
qed

subsection \<open>The launch of the child\<close>

text \<open>
  Claim C8. A start that passes the checks on a record with memory limit \<open>M\<close> (a
  non-zero \<^verbatim>\<open>maxMemoryMB\<close>, as every record made by create has) replies \<^verbatim>\<open>{ok: true}\<close>, with
  the pid when the process could be spawned, and runs \<^verbatim>\<open>java\<close> with the arguments
  \<^verbatim>\<open>-XmxMM\<close>, \<^verbatim>\<open>-Xms\<close> with \<open>min 512 M\<close>, \<^verbatim>\<open>-jar\<close>, the jar path and \<^verbatim>\<open>nogui\<close>, in this
  order, in the directory of the instance. The minimum heap never exceeds 512.
\<close>

theorem launch_arguments:
  "(procMap st i = None \<and> getServer st i = Normal (Some s) \<and>
      existsSync st (path_join (JAR_DIR st) (jar s)) \<and> maxMemoryMB s \<noteq> 0 \<longrightarrow>
      fst (api_start st i) = (if spawns st s then OkPid (os_pid st) else Ok) \<and>
      command (children (snd (api_start st i)) ! length (children st)) = ''java'' \<and>
      args (children (snd (api_start st i)) ! length (children st)) =
        [''-Xmx'' @ show_int (maxMemoryMB s) @ ''M'',
         ''-Xms'' @ show_int (min 512 (maxMemoryMB s)) @ ''M'',
         ''-jar'', path_str (path_join (JAR_DIR st) (jar s)), ''nogui''] \<and>
      min 512 (maxMemoryMB s) \<le> 512 \<and>
      cwd (children (snd (api_start st i)) ! length (children st)) = dir s) \<and>
   (fst (api_create st ds nameO portO memO jarO) = Json r \<longrightarrow> maxMemoryMB r \<noteq> 0)"
proof -
  have "maxMemoryMB r \<noteq> 0" if "fst (api_create st ds nameO portO memO jarO) = Json r"
    using that
    by (auto simp: api_create_def Let_def split: option.splits if_splits jsval.splits)
  then show ?thesis
    by (simp add: api_start_def launch_args_def Let_def split: option.split)
qed

theorem launch_arguments_witness:
  "fst (api_start ex_state ''alpha-k3x9q'') = OkPid 4711 \<and>
   command (children (snd (api_start ex_state ''alpha-k3x9q'')) ! 0) = ''java'' \<and>
   args (children (snd (api_start ex_state ''alpha-k3x9q'')) ! 0) =
     [''-Xmx2048M'', ''-Xms512M'', ''-jar'', ''/srv/mgr/data/jars/paper.jar'', ''nogui''] \<and>
   cwd (children (snd (api_start ex_state ''alpha-k3x9q'')) ! 0) =
     [''srv'', ''mgr'', ''data'', ''servers'', ''alpha-k3x9q''] \<and>
   fst (api_create ex_corrupt [7, 2, 3, 10, 35, 4] (Some ''Gamma World'') (Some 25570) (Some 0)
          (Some ''paper.jar''))
     = Json \<lparr>id_s = ''gamma-world-723az'', name = ''Gamma World'', port = 25570, maxMemoryMB = 1024,
             jar = ''paper.jar'',
             dir = [''srv'', ''mgr'', ''data'', ''servers'', ''gamma-world-723az'']\<rparr> \<and>
   maxMemoryMB \<lparr>id_s = ''gamma-world-723az'', name = ''Gamma World'', port = 25570, maxMemoryMB = 1024,
             jar = ''paper.jar'',
             dir = [''srv'', ''mgr'', ''data'', ''servers'', ''gamma-world-723az'']\<rparr> \<noteq> 0"
proof -
  have m: "maxMemoryMB ex_server = 2048"
    "dir ex_server = [''srv'', ''mgr'', ''data'', ''servers'', ''alpha-k3x9q'']"
    by (simp_all add: ex_server_def)
  have s: "path_str [''srv'', ''mgr'', ''data'', ''jars'', ''paper.jar''] = ''/srv/mgr/data/jars/paper.jar''"
    by (simp add: path_str_def)
  have pre: "procMap ex_state ''alpha-k3x9q'' = None \<and> getServer ex_state ''alpha-k3x9q'' = Normal (Some ex_server) \<and>
      existsSync ex_state (path_join (JAR_DIR ex_state) (jar ex_server)) \<and> maxMemoryMB ex_server \<noteq> 0"
    by (simp add: ex_getServer_alpha ex_jarPath ex_jar_exists ex_state_sel m)
  note a = launch_arguments [where st = ex_state and i = "''alpha-k3x9q''" and s = ex_server,
      THEN conjunct1, THEN mp, OF pre]
  note b = launch_arguments [where st = ex_corrupt and ds = "[7, 2, 3, 10, 35, 4]"
      and nameO = "Some ''Gamma World''" and portO = "Some 25570" and memO = "Some 0"
      and jarO = "Some ''paper.jar''", THEN conjunct2, THEN mp, OF ex_corrupt_create]
  show ?thesis
    using a b ex_corrupt_create
    by (simp add: ex_jarPath ex_state_sel m s show_2048 show_512 ex_spawns)
qed

end
